theory Spec2Isabelle
  imports Main "HOL-Library.List_Lexorder" "HOL-Library.Char_ord" "HOL-Library.AList"
begin

section \<open>JavaScript values\<close>

text \<open>
  The values that cross the wallet bridge.  A plain object is the list of its own
  enumerable string-keyed properties in the order the engine enumerates them; a
  \<open>Map\<close> is the list of its entries and a \<open>Set\<close> the list of its members, both in
  insertion order.  Numbers are integers of magnitude at most \<open>2^53\<close>, which a double
  holds exactly (other doubles are outside the embedding), and a character is one
  code unit below 256.  An \<open>Error\<close> carries the three properties the codec reads: name, message
  and stack.
\<close>

datatype jsval =
    JUndefined
  | JNull
  | JBool bool
  | JNum int
  | JStr string
  | JBigInt int
  | JBigIntObj int
  | JArr "jsval list"
  | JObj "(string \<times> jsval) list"
  | JError jsval jsval jsval
  | JMap "(jsval \<times> jsval) list"
  | JSet "jsval list"

datatype exn =
    SyntaxError
  | TypeError
  | RangeError
  | OutOfModel

fun truthy :: "jsval \<Rightarrow> bool" where
  "truthy JUndefined = False"
| "truthy JNull = False"
| "truthy (JBool b) = b"
| "truthy (JNum n) = (n \<noteq> 0)"
| "truthy (JStr s) = (s \<noteq> [])"
| "truthy (JBigInt n) = (n \<noteq> 0)"
| "truthy _ = True"

text \<open>\<open>a || b\<close>\<close>

definition js_or :: "jsval \<Rightarrow> jsval \<Rightarrow> jsval" where
  "js_or a b = (if truthy a then a else b)"

text \<open>\<open>a ?? b\<close>\<close>

definition nullish :: "jsval \<Rightarrow> bool" where
  "nullish v = (v = JUndefined \<or> v = JNull)"

definition js_coalesce :: "jsval \<Rightarrow> jsval \<Rightarrow> jsval" where
  "js_coalesce a b = (if nullish a then b else a)"

text \<open>Property read \<open>o[k]\<close> on a plain object: \<open>undefined\<close> when the key is absent.\<close>

definition get_prop :: "(string \<times> jsval) list \<Rightarrow> string \<Rightarrow> jsval" where
  "get_prop ps k = (case map_of ps k of None \<Rightarrow> JUndefined | Some v \<Rightarrow> v)"

text \<open>
  Property read \<open>v[k]\<close> on any value, for the keys the code reads (none of them is
  defined by a prototype): \<open>TypeError\<close> on \<open>null\<close> and \<open>undefined\<close>, the own property
  of a plain object, the three properties of an \<open>Error\<close>, \<open>undefined\<close> on
  everything else.
\<close>

fun js_get :: "jsval \<Rightarrow> string \<Rightarrow> exn + jsval" where
  "js_get JUndefined k = Inl TypeError"
| "js_get JNull k = Inl TypeError"
| "js_get (JObj ps) k = Inr (get_prop ps k)"
| "js_get (JError name message stack) k =
     Inr (if k = ''name'' then name else if k = ''message'' then message
          else if k = ''stack'' then stack else JUndefined)"
| "js_get _ k = Inr JUndefined"

section \<open>Decimal and string output\<close>

definition digit_char :: "nat \<Rightarrow> char" where
  "digit_char n = ''0123456789abcdef'' ! (n mod 16)"

function show_nat :: "nat \<Rightarrow> string" where
  "show_nat n = (if n < 10 then [digit_char n] else show_nat (n div 10) @ [digit_char (n mod 10)])"
  by pat_completeness auto
termination
  by (relation "measure id") auto

declare show_nat.simps [simp del]

definition show_int :: "int \<Rightarrow> string" where
  "show_int i = (if i < 0 then CHR ''-'' # show_nat (nat (- i)) else show_nat (nat i))"

text \<open>
  The quoting of \<open>JSON.stringify\<close>, which the stable stringifier uses for strings and
  keys: the quote and the backslash are escaped, a control character is written by
  its short escape or as \<open>\u00XX\<close> in lower-case hexadecimal.
\<close>

definition escape_char :: "char \<Rightarrow> string" where
  "escape_char c =
     (if c = CHR 0x22 then [CHR 0x5C, CHR 0x22]
      else if c = CHR 0x5C then [CHR 0x5C, CHR 0x5C]
      else if c = CHR 0x08 then [CHR 0x5C, CHR ''b'']
      else if c = CHR 0x09 then [CHR 0x5C, CHR ''t'']
      else if c = CHR 0x0A then [CHR 0x5C, CHR ''n'']
      else if c = CHR 0x0C then [CHR 0x5C, CHR ''f'']
      else if c = CHR 0x0D then [CHR 0x5C, CHR ''r'']
      else if (of_char c :: nat) < 32
        then [CHR 0x5C, CHR ''u'', CHR ''0'', CHR ''0'',
              digit_char (of_char c div 16), digit_char (of_char c mod 16)]
      else [c])"

definition strEscape :: "string \<Rightarrow> string" where
  "strEscape s = CHR 0x22 # concat (map escape_char s) @ [CHR 0x22]"

fun join :: "string \<Rightarrow> string list \<Rightarrow> string" where
  "join sep [] = []"
| "join sep [x] = x"
| "join sep (x # y # ys) = x @ sep @ join sep (y # ys)"

section \<open>ObjectUtils.serialize\<close>

text \<open>
  The replacer that \<open>serialize\<close> hands to the stringifier.  A primitive bigint is not
  an instance of \<open>BigInt\<close>, so it reaches the \<open>typeof value == "bigint"\<close> branch; only
  a boxed \<open>BigInt\<close> object takes the branch before it.
\<close>

fun replacer :: "jsval \<Rightarrow> jsval" where
  "replacer (JError name message stack) =
     JObj [(''dataType'', JStr ''Error''),
           (''value'', JObj [(''name'', js_or name (JStr ''Error'')),
                            (''message'', js_or message (JStr ''Unknown error'')),
                            (''stack'', js_or stack JUndefined)])]"
| "replacer (JMap es) =
     JObj [(''dataType'', JStr ''Map''), (''value'', JArr (map (\<lambda>(k, v). JArr [k, v]) es))]"
| "replacer (JSet xs) =
     JObj [(''dataType'', JStr ''Set''), (''value'', JArr xs)]"
| "replacer (JBigIntObj n) =
     JObj [(''dataType'', JStr ''BigInt''), (''value'', JStr (show_int n))]"
| "replacer (JBigInt n) =
     JObj [(''dataType'', JStr ''bigint''), (''value'', JStr (show_int n))]"
| "replacer v = v"

text \<open>
  The stable stringifier (safe-stable-stringify, default options) is a dependency of
  the repository.  \<open>emit_array\<close> and \<open>emit_object\<close> are its output for an array and
  an object whose members are already stringified: an \<open>undefined\<close> array element is
  written \<open>null\<close>, an \<open>undefined\<close> property is left out, and the keys of an object are
  sorted by code unit.
\<close>

definition emit_array :: "string option list \<Rightarrow> string" where
  "emit_array ts =
     ''['' @ join '','' (map (\<lambda>t. case t of None \<Rightarrow> ''null'' | Some s \<Rightarrow> s) ts) @ '']''"

definition emit_member :: "string \<times> string option \<Rightarrow> string list" where
  "emit_member kt = (case snd kt of None \<Rightarrow> [] | Some s \<Rightarrow> [strEscape (fst kt) @ '':'' @ s])"

definition emit_object :: "(string \<times> string option) list \<Rightarrow> string" where
  "emit_object kts = ''{'' @ join '','' (concat (map emit_member (sort_key fst kts))) @ ''}''"

text \<open>
  One step of the stringifier on a value the replacer has returned, \<open>rec\<close> being the
  stringifier on the members (which calls the replacer on each of them first).  An
  object without own enumerable properties, such as a \<open>Map\<close> or an \<open>Error\<close> that the
  replacer has not rewritten, is written \<open>{}\<close>.
\<close>

fun stringify_step :: "(jsval \<Rightarrow> string option) \<Rightarrow> jsval \<Rightarrow> string option" where
  "stringify_step rec JUndefined = None"
| "stringify_step rec JNull = Some ''null''"
| "stringify_step rec (JBool b) = Some (if b then ''true'' else ''false'')"
| "stringify_step rec (JNum n) = Some (show_int n)"
| "stringify_step rec (JStr s) = Some (strEscape s)"
| "stringify_step rec (JBigInt n) = Some (show_int n)"
| "stringify_step rec (JArr xs) = Some (emit_array (map rec xs))"
| "stringify_step rec (JObj ps) = Some (emit_object (map (\<lambda>(k, v). (k, rec v)) ps))"
| "stringify_step rec _ = Some ''{}''"

text \<open>
  The stringifier with the replacer of \<open>serialize\<close>: the replacer is applied to a
  value, the result is written by \<open>stringify_step\<close>, recursively.  The recursion is
  written out by cases so that it is structural; \<open>stringify_unfold\<close> below shows that
  it is the fixed point of \<open>stringify_step\<close> after \<open>replacer\<close>.
\<close>

fun stringify :: "jsval \<Rightarrow> string option" where
  "stringify JUndefined = None"
| "stringify JNull = Some ''null''"
| "stringify (JBool b) = Some (if b then ''true'' else ''false'')"
| "stringify (JNum n) = Some (show_int n)"
| "stringify (JStr s) = Some (strEscape s)"
| "stringify (JBigInt n) =
     Some (emit_object [(''dataType'', Some (strEscape ''bigint'')),
                        (''value'', Some (strEscape (show_int n)))])"
| "stringify (JBigIntObj n) =
     Some (emit_object [(''dataType'', Some (strEscape ''BigInt'')),
                        (''value'', Some (strEscape (show_int n)))])"
| "stringify (JArr xs) = Some (emit_array (map stringify xs))"
| "stringify (JObj ps) = Some (emit_object (map (\<lambda>(k, v). (k, stringify v)) ps))"
| "stringify (JError name message stack) =
     Some (emit_object
       [(''dataType'', Some (strEscape ''Error'')),
        (''value'', Some (emit_object
           [(''name'', if truthy name then stringify name else Some (strEscape ''Error'')),
            (''message'',
               if truthy message then stringify message else Some (strEscape ''Unknown error'')),
            (''stack'', if truthy stack then stringify stack else None)]))])"
| "stringify (JMap es) =
     Some (emit_object
       [(''dataType'', Some (strEscape ''Map'')),
        (''value'', Some (emit_array
           (map (\<lambda>(k, v). Some (emit_array [stringify k, stringify v])) es)))])"
| "stringify (JSet xs) =
     Some (emit_object
       [(''dataType'', Some (strEscape ''Set'')),
        (''value'', Some (emit_array (map stringify xs)))])"

text \<open>
  \<open>serialize\<close> returns what the stringifier returns, cast to a string: \<open>None\<close> is the
  \<open>undefined\<close> the stringifier gives for \<open>undefined\<close> itself.
\<close>

definition serialize :: "jsval \<Rightarrow> string option" where
  "serialize obj = stringify obj"

section \<open>JSON.parse\<close>

text \<open>
  \<open>JSON.parse\<close> is the engine's.  The model is a recursive-descent parser of the
  JSON grammar.  It answers \<open>SyntaxError\<close> where the text is not JSON and
  \<open>OutOfModel\<close> where the text leaves the embedding: a number with a fraction or an
  exponent, an integer above \<open>2^53\<close> in magnitude (the engine rounds it to a double),
  a \<open>\u\<close> escape of a code unit above 255.  The first argument of the
  three parsers bounds the nesting; \<open>JSON_parse\<close> starts them with more than the
  text can use, and running out is reported as \<open>OutOfModel\<close>, never as a syntax
  error.
\<close>

definition is_ws :: "char \<Rightarrow> bool" where
  "is_ws c = (c = CHR '' '' \<or> c = CHR 0x09 \<or> c = CHR 0x0A \<or> c = CHR 0x0D)"

definition skip_ws :: "string \<Rightarrow> string" where
  "skip_ws s = dropWhile is_ws s"

definition is_digit :: "char \<Rightarrow> bool" where
  "is_digit c = (48 \<le> (of_char c :: nat) \<and> (of_char c :: nat) \<le> 57)"

definition digit_val :: "char \<Rightarrow> nat" where
  "digit_val c = of_char c - 48"

definition nat_of_digits :: "string \<Rightarrow> nat" where
  "nat_of_digits ds = foldl (\<lambda>a c. 10 * a + digit_val c) 0 ds"

definition hex_val :: "char \<Rightarrow> nat option" where
  "hex_val c =
     (let n = (of_char c :: nat) in
      if 48 \<le> n \<and> n \<le> 57 then Some (n - 48)
      else if 97 \<le> n \<and> n \<le> 102 then Some (n - 87)
      else if 65 \<le> n \<and> n \<le> 70 then Some (n - 55)
      else None)"

definition parse_number :: "string \<Rightarrow> exn + (jsval \<times> string)" where
  "parse_number s =
     (let neg = (s \<noteq> [] \<and> hd s = CHR ''-'');
          s1 = (if neg then tl s else s);
          ds = takeWhile is_digit s1;
          rest = dropWhile is_digit s1
      in if ds = [] then Inl SyntaxError
         else if hd ds = CHR ''0'' \<and> length ds > 1 then Inl SyntaxError
         else if rest \<noteq> [] \<and> (hd rest = CHR ''.'' \<or> hd rest = CHR ''e'' \<or> hd rest = CHR ''E'')
           then Inl OutOfModel
         else if 9007199254740992 < int (nat_of_digits ds) then Inl OutOfModel
         else Inr (JNum (if neg then - int (nat_of_digits ds) else int (nat_of_digits ds)), rest))"

definition unescape :: "char \<Rightarrow> char option" where
  "unescape e =
     (if e = CHR 0x22 then Some (CHR 0x22)
      else if e = CHR 0x5C then Some (CHR 0x5C)
      else if e = CHR ''/'' then Some (CHR ''/'')
      else if e = CHR ''b'' then Some (CHR 0x08)
      else if e = CHR ''f'' then Some (CHR 0x0C)
      else if e = CHR ''n'' then Some (CHR 0x0A)
      else if e = CHR ''r'' then Some (CHR 0x0D)
      else if e = CHR ''t'' then Some (CHR 0x09)
      else None)"

definition hex4 :: "char \<Rightarrow> char \<Rightarrow> char \<Rightarrow> char \<Rightarrow> nat option" where
  "hex4 a b c d =
     (case (hex_val a, hex_val b, hex_val c, hex_val d) of
        (Some x, Some y, Some z, Some w) \<Rightarrow> Some (((x * 16 + y) * 16 + z) * 16 + w)
      | _ \<Rightarrow> None)"

text \<open>The characters of a string literal, after its opening quote.\<close>

fun parse_chars :: "string \<Rightarrow> exn + (string \<times> string)" where
  "parse_chars [] = Inl SyntaxError"
| "parse_chars (c # cs) =
     (if c = CHR 0x22 then Inr ([], cs)
      else if c = CHR 0x5C then
        (case cs of
           [] \<Rightarrow> Inl SyntaxError
         | e # r \<Rightarrow>
            if e = CHR ''u'' then
              (case r of
                 h1 # h2 # h3 # h4 # r' \<Rightarrow>
                   (case hex4 h1 h2 h3 h4 of
                      None \<Rightarrow> Inl SyntaxError
                    | Some n \<Rightarrow>
                       if n < 256 then
                         (case parse_chars r' of
                            Inl x \<Rightarrow> Inl x
                          | Inr (str, rest) \<Rightarrow> Inr (char_of n # str, rest))
                       else Inl OutOfModel)
               | _ \<Rightarrow> Inl SyntaxError)
            else
              (case unescape e of
                 None \<Rightarrow> Inl SyntaxError
               | Some ch \<Rightarrow>
                  (case parse_chars r of
                     Inl x \<Rightarrow> Inl x
                   | Inr (str, rest) \<Rightarrow> Inr (ch # str, rest))))
      else if (of_char c :: nat) < 32 then Inl SyntaxError
      else
        (case parse_chars cs of
           Inl x \<Rightarrow> Inl x
         | Inr (str, rest) \<Rightarrow> Inr (c # str, rest)))"

text \<open>
  The order of the own properties of an object, as the engine enumerates them:
  the keys that are array indices (the decimal numerals of the integers up to
  \<open>2^32 - 2\<close>) come first, in ascending numeric order, and the other keys follow in
  the order in which they were created.
\<close>

definition index_value :: "string \<Rightarrow> int" where
  "index_value k = foldl (\<lambda>a c. 10 * a + int (digit_val c)) 0 k"

definition is_index :: "string \<Rightarrow> bool" where
  "is_index k =
     (k \<noteq> [] \<and> list_all is_digit k \<and> (hd k \<noteq> CHR ''0'' \<or> length k = 1)
      \<and> length k \<le> 10 \<and> index_value k \<le> 4294967294)"

definition own_order :: "(string \<times> 'a) list \<Rightarrow> (string \<times> 'a) list" where
  "own_order ps =
     sort_key (\<lambda>p. index_value (fst p)) (filter (\<lambda>p. is_index (fst p)) ps)
     @ filter (\<lambda>p. \<not> is_index (fst p)) ps"

text \<open>
  Defining the properties of a list of members one after the other on a new object:
  a key that occurs twice keeps its first position and its last value.
\<close>

definition obj_set :: "(string \<times> jsval) list \<Rightarrow> string \<times> jsval \<Rightarrow> (string \<times> jsval) list" where
  "obj_set ps kv =
     (if fst kv \<in> fst ` set ps
      then map (\<lambda>p. if fst p = fst kv then kv else p) ps
      else ps @ [kv])"

definition obj_of :: "(string \<times> jsval) list \<Rightarrow> (string \<times> jsval) list" where
  "obj_of kvs = own_order (foldl obj_set [] kvs)"

fun parse_value :: "nat \<Rightarrow> string \<Rightarrow> exn + (jsval \<times> string)"
  and parse_elements :: "nat \<Rightarrow> string \<Rightarrow> exn + (jsval list \<times> string)"
  and parse_members :: "nat \<Rightarrow> string \<Rightarrow> exn + ((string \<times> jsval) list \<times> string)"
where
  "parse_value 0 s = Inl OutOfModel"
| "parse_value (Suc n) s =
     (let t = skip_ws s in
      if t = [] then Inl SyntaxError
      else if hd t = CHR ''{'' then
        (let u = skip_ws (tl t) in
         if u \<noteq> [] \<and> hd u = CHR ''}'' then Inr (JObj [], tl u)
         else (case parse_members n u of
                 Inl x \<Rightarrow> Inl x
               | Inr (ps, r) \<Rightarrow> Inr (JObj (obj_of ps), r)))
      else if hd t = CHR ''['' then
        (let u = skip_ws (tl t) in
         if u \<noteq> [] \<and> hd u = CHR '']'' then Inr (JArr [], tl u)
         else (case parse_elements n u of
                 Inl x \<Rightarrow> Inl x
               | Inr (xs, r) \<Rightarrow> Inr (JArr xs, r)))
      else if hd t = CHR 0x22 then
        (case parse_chars (tl t) of
           Inl x \<Rightarrow> Inl x
         | Inr (str, r) \<Rightarrow> Inr (JStr str, r))
      else if hd t = CHR ''-'' \<or> is_digit (hd t) then parse_number t
      else if take 4 t = ''true'' then Inr (JBool True, drop 4 t)
      else if take 5 t = ''false'' then Inr (JBool False, drop 5 t)
      else if take 4 t = ''null'' then Inr (JNull, drop 4 t)
      else Inl SyntaxError)"
| "parse_elements 0 s = Inl OutOfModel"
| "parse_elements (Suc n) s =
     (case parse_value n s of
        Inl x \<Rightarrow> Inl x
      | Inr (v, r) \<Rightarrow>
         (let u = skip_ws r in
          if u = [] then Inl SyntaxError
          else if hd u = CHR '','' then
            (case parse_elements n (tl u) of
               Inl x \<Rightarrow> Inl x
             | Inr (vs, r') \<Rightarrow> Inr (v # vs, r'))
          else if hd u = CHR '']'' then Inr ([v], tl u)
          else Inl SyntaxError))"
| "parse_members 0 s = Inl OutOfModel"
| "parse_members (Suc n) s =
     (let t = skip_ws s in
      if t \<noteq> [] \<and> hd t = CHR 0x22 then
        (case parse_chars (tl t) of
           Inl x \<Rightarrow> Inl x
         | Inr (k, r) \<Rightarrow>
            (let u = skip_ws r in
             if u \<noteq> [] \<and> hd u = CHR '':'' then
               (case parse_value n (tl u) of
                  Inl x \<Rightarrow> Inl x
                | Inr (v, r2) \<Rightarrow>
                   (let w = skip_ws r2 in
                    if w = [] then Inl SyntaxError
                    else if hd w = CHR '','' then
                      (case parse_members n (tl w) of
                         Inl x \<Rightarrow> Inl x
                       | Inr (ps, r3) \<Rightarrow> Inr ((k, v) # ps, r3))
                    else if hd w = CHR ''}'' then Inr ([(k, v)], tl w)
                    else Inl SyntaxError))
             else Inl SyntaxError))
      else Inl SyntaxError)"

definition JSON_parse :: "string \<Rightarrow> exn + jsval" where
  "JSON_parse s =
     (case parse_value (Suc (length s)) s of
        Inl x \<Rightarrow> Inl x
      | Inr (v, r) \<Rightarrow> if skip_ws r = [] then Inr v else Inl SyntaxError)"

section \<open>Constructors of the engine\<close>

text \<open>
  \<open>String(v)\<close>, as the constructors below apply it to their argument.
\<close>

fun ToString :: "jsval \<Rightarrow> string" where
  "ToString JUndefined = ''undefined''"
| "ToString JNull = ''null''"
| "ToString (JBool b) = (if b then ''true'' else ''false'')"
| "ToString (JNum n) = show_int n"
| "ToString (JStr s) = s"
| "ToString (JBigInt n) = show_int n"
| "ToString (JBigIntObj n) = show_int n"
| "ToString (JArr xs) =
     join '','' (map (\<lambda>x. if x = JUndefined \<or> x = JNull then [] else ToString x) xs)"
| "ToString (JObj ps) = ''[object Object]''"
| "ToString (JError name message stack) =
     (let n = (if name = JUndefined then ''Error'' else ToString name);
          m = (if message = JUndefined then [] else ToString message)
      in if n = [] then m else if m = [] then n else n @ '': '' @ m)"
| "ToString (JMap es) = ''[object Map]''"
| "ToString (JSet xs) = ''[object Set]''"

definition is_js_space :: "char \<Rightarrow> bool" where
  "is_js_space c =
     (let n = (of_char c :: nat) in (9 \<le> n \<and> n \<le> 13) \<or> n = 32 \<or> n = 160)"

definition trim :: "string \<Rightarrow> string" where
  "trim s = rev (dropWhile is_js_space (rev (dropWhile is_js_space s)))"

text \<open>The digits of a literal in the given base; \<open>None\<close> when there is none or one is not a digit.\<close>

definition digits_value :: "nat \<Rightarrow> string \<Rightarrow> nat option" where
  "digits_value base ds =
     (if ds \<noteq> [] \<and> list_all (\<lambda>c. case hex_val c of None \<Rightarrow> False | Some d \<Rightarrow> d < base) ds
      then Some (foldl (\<lambda>a c. base * a + the (hex_val c)) 0 ds)
      else None)"

text \<open>
  The text a \<open>BigInt\<close> is read from: white space is trimmed, the empty text is zero,
  a prefix selects base 16, 8 or 2, and only a decimal literal may carry a sign.
\<close>

definition StringToBigInt :: "string \<Rightarrow> int option" where
  "StringToBigInt str =
     (let s = trim str in
      if s = [] then Some 0
      else if take 2 s = ''0x'' \<or> take 2 s = ''0X'' then map_option int (digits_value 16 (drop 2 s))
      else if take 2 s = ''0o'' \<or> take 2 s = ''0O'' then map_option int (digits_value 8 (drop 2 s))
      else if take 2 s = ''0b'' \<or> take 2 s = ''0B'' then map_option int (digits_value 2 (drop 2 s))
      else if hd s = CHR ''-'' then map_option (\<lambda>n. - int n) (digits_value 10 (tl s))
      else if hd s = CHR ''+'' then map_option int (digits_value 10 (tl s))
      else map_option int (digits_value 10 s))"

text \<open>\<open>BigInt(v)\<close>\<close>

fun BigInt :: "jsval \<Rightarrow> exn + jsval" where
  "BigInt JUndefined = Inl TypeError"
| "BigInt JNull = Inl TypeError"
| "BigInt (JBool b) = Inr (JBigInt (if b then 1 else 0))"
| "BigInt (JNum n) = Inr (JBigInt n)"
| "BigInt (JBigInt n) = Inr (JBigInt n)"
| "BigInt (JBigIntObj n) = Inr (JBigInt n)"
| "BigInt v = (case StringToBigInt (ToString v) of None \<Rightarrow> Inl SyntaxError | Some i \<Rightarrow> Inr (JBigInt i))"

text \<open>
  Keys of a \<open>Map\<close> and members of a \<open>Set\<close> are compared by SameValueZero: primitives
  by value, objects by identity.  The objects the constructors meet here are fresh
  from the parser, so no two of them are the same object.
\<close>

fun is_primitive :: "jsval \<Rightarrow> bool" where
  "is_primitive JUndefined = True"
| "is_primitive JNull = True"
| "is_primitive (JBool b) = True"
| "is_primitive (JNum n) = True"
| "is_primitive (JStr s) = True"
| "is_primitive (JBigInt n) = True"
| "is_primitive _ = False"

definition map_set :: "(jsval \<times> jsval) list \<Rightarrow> jsval \<times> jsval \<Rightarrow> (jsval \<times> jsval) list" where
  "map_set es kv =
     (if is_primitive (fst kv) \<and> fst kv \<in> fst ` set es
      then map (\<lambda>e. if fst e = fst kv then kv else e) es
      else es @ [kv])"

definition set_add :: "jsval list \<Rightarrow> jsval \<Rightarrow> jsval list" where
  "set_add xs x = (if is_primitive x \<and> x \<in> set xs then xs else xs @ [x])"

definition nth_or_undefined :: "jsval list \<Rightarrow> nat \<Rightarrow> jsval" where
  "nth_or_undefined xs i = (if i < length xs then xs ! i else JUndefined)"

text \<open>What the \<open>Map\<close> constructor reads from one item of its argument.\<close>

fun entry_of :: "jsval \<Rightarrow> exn + (jsval \<times> jsval)" where
  "entry_of (JArr xs) = Inr (nth_or_undefined xs 0, nth_or_undefined xs 1)"
| "entry_of (JObj ps) = Inr (get_prop ps ''0'', get_prop ps ''1'')"
| "entry_of (JError name message stack) = Inr (JUndefined, JUndefined)"
| "entry_of (JMap es) = Inr (JUndefined, JUndefined)"
| "entry_of (JSet xs) = Inr (JUndefined, JUndefined)"
| "entry_of (JBigIntObj n) = Inr (JUndefined, JUndefined)"
| "entry_of v = Inl TypeError"

text \<open>The first exception of a list of results, or all the values.\<close>

fun sequence :: "(exn + 'a) list \<Rightarrow> exn + 'a list" where
  "sequence [] = Inr []"
| "sequence (x # xs) =
     (case x of
        Inl e \<Rightarrow> Inl e
      | Inr v \<Rightarrow> (case sequence xs of Inl e \<Rightarrow> Inl e | Inr vs \<Rightarrow> Inr (v # vs)))"

definition entries_of :: "jsval list \<Rightarrow> exn + jsval" where
  "entries_of xs =
     (case sequence (map entry_of xs) of
        Inl e \<Rightarrow> Inl e
      | Inr kvs \<Rightarrow> Inr (JMap (foldl map_set [] kvs)))"

text \<open>\<open>new Map(v)\<close>\<close>

fun new_Map :: "jsval \<Rightarrow> exn + jsval" where
  "new_Map JUndefined = Inr (JMap [])"
| "new_Map JNull = Inr (JMap [])"
| "new_Map (JArr xs) = entries_of xs"
| "new_Map (JSet xs) = entries_of xs"
| "new_Map (JMap es) = Inr (JMap es)"
| "new_Map (JStr s) = (if s = [] then Inr (JMap []) else Inl TypeError)"
| "new_Map v = Inl TypeError"

text \<open>\<open>new Set(v)\<close>\<close>

fun new_Set :: "jsval \<Rightarrow> exn + jsval" where
  "new_Set JUndefined = Inr (JSet [])"
| "new_Set JNull = Inr (JSet [])"
| "new_Set (JArr xs) = Inr (JSet (foldl set_add [] xs))"
| "new_Set (JSet xs) = Inr (JSet xs)"
| "new_Set (JMap es) = Inr (JSet (map (\<lambda>(k, v). JArr [k, v]) es))"
| "new_Set (JStr s) = Inr (JSet (foldl set_add [] (map (\<lambda>c. JStr [c]) s)))"
| "new_Set v = Inl TypeError"

section \<open>ObjectUtils.deserialize and deserializeUnsafe\<close>

text \<open>
  The \<open>Error\<close> both decoders rebuild from the \<open>value\<close> of an \<open>Error\<close> wrapper.  The
  message is converted to a string by the constructor; the name is assigned as it
  is; the stack is assigned when it is truthy (the stack the engine itself attaches
  to a new \<open>Error\<close> is not modelled: it is \<open>undefined\<close> here).
\<close>

definition make_error :: "jsval \<Rightarrow> exn + jsval" where
  "make_error errorData =
     (case js_get errorData ''message'' of
        Inl e \<Rightarrow> Inl e
      | Inr message \<Rightarrow>
         (case js_get errorData ''name'' of
            Inl e \<Rightarrow> Inl e
          | Inr name \<Rightarrow>
             (case js_get errorData ''stack'' of
                Inl e \<Rightarrow> Inl e
              | Inr stack \<Rightarrow>
                 Inr (JError (js_or name (JStr ''Error''))
                             (JStr (ToString (js_or message (JStr ''Unknown error''))))
                             (if truthy stack then stack else JUndefined)))))"

text \<open>
  The assignments \<open>processed[key] = \<dots>\<close> of \<open>processValue\<close> on a new object.  The key
  \<open>__proto__\<close> is not created: the assignment runs the setter of \<open>Object.prototype\<close>,
  which does nothing for a primitive other than \<open>null\<close>, and for an object or \<open>null\<close>
  replaces the prototype of \<open>processed\<close>, which leaves the embedding.
\<close>

definition assigned :: "(string \<times> jsval) list \<Rightarrow> exn + (string \<times> jsval) list" where
  "assigned kvs =
     (if list_ex (\<lambda>kv. fst kv = ''__proto__'' \<and> (\<not> is_primitive (snd kv) \<or> snd kv = JNull)) kvs
      then Inl OutOfModel
      else Inr (obj_of (filter (\<lambda>kv. fst kv \<noteq> ''__proto__'') kvs)))"

text \<open>
  \<open>processValue\<close> of \<open>deserialize\<close>.  A tagged wrapper is rebuilt from its \<open>value\<close>
  as the parser left it: the function does not call itself on the content of a
  wrapper.  An exception of a constructor leaves the function.  The parser returns
  no \<open>Error\<close>, \<open>Map\<close>, \<open>Set\<close> or boxed \<open>BigInt\<close>; on a \<open>Map\<close>, a \<open>Set\<close> or a boxed
  \<open>BigInt\<close> the function would copy no property, and what it would copy of an
  \<open>Error\<close> the embedding does not record.
\<close>

fun processValue :: "jsval \<Rightarrow> exn + jsval" where
  "processValue (JObj ps) =
     (let dataType = get_prop ps ''dataType''; dataValue = get_prop ps ''value'' in
      if ''dataType'' \<in> fst ` set ps \<and> ''value'' \<in> fst ` set ps \<and> dataType = JStr ''Error''
        then make_error dataValue
      else if ''dataType'' \<in> fst ` set ps \<and> ''value'' \<in> fst ` set ps \<and> dataType = JStr ''Map''
        then new_Map dataValue
      else if ''dataType'' \<in> fst ` set ps \<and> ''value'' \<in> fst ` set ps \<and> dataType = JStr ''Set''
        then new_Set dataValue
      else if ''dataType'' \<in> fst ` set ps \<and> ''value'' \<in> fst ` set ps
              \<and> (dataType = JStr ''BigInt'' \<or> dataType = JStr ''bigint'')
        then BigInt dataValue
      else (case sequence (map (\<lambda>(k, v). processValue v) ps) of
              Inl e \<Rightarrow> Inl e
            | Inr vs \<Rightarrow>
               (case assigned (zip (map fst ps) vs) of
                  Inl e \<Rightarrow> Inl e
                | Inr qs \<Rightarrow> Inr (JObj qs))))"
| "processValue (JArr xs) =
     (case sequence (map processValue xs) of Inl e \<Rightarrow> Inl e | Inr vs \<Rightarrow> Inr (JArr vs))"
| "processValue (JError name message stack) = Inl OutOfModel"
| "processValue (JMap es) = Inr (JObj [])"
| "processValue (JSet xs) = Inr (JObj [])"
| "processValue (JBigIntObj n) = Inr (JObj [])"
| "processValue v = Inr v"

text \<open>
  How a call that returns a \<open>ResultAsync\<close> can end: the call itself throws, the
  promise inside the result rejects (an exception escaped a combinator's callback),
  the result never settles, or it settles to an error or to a value.
\<close>

datatype ('e, 'a) outcome = Threw exn | Rejected exn | Unsettled | Err 'e | Ok 'a

datatype ValidationError = ValidationError exn

text \<open>
  \<open>deserialize\<close> evaluates \<open>JSON.parse(json)\<close> as the argument of
  \<open>Promise.resolve\<close>, before \<open>ResultAsync.fromPromise\<close> is entered: an exception of
  the parser leaves \<open>deserialize\<close> itself.  The promise made from the parsed value
  is already fulfilled, so the error mapper of \<open>fromPromise\<close> has nothing to map.
\<close>

definition deserialize :: "string \<Rightarrow> (ValidationError, jsval) outcome" where
  "deserialize json =
     (case JSON_parse json of
        Inl e \<Rightarrow> Threw e
      | Inr parsed \<Rightarrow>
         (case processValue parsed of
            Inl e \<Rightarrow> Rejected e
          | Inr processed \<Rightarrow> Ok processed))"

text \<open>
  The reviver of \<open>deserializeUnsafe\<close>, called by the parser on a value whose members
  it has already revived.
\<close>

fun reviver :: "jsval \<Rightarrow> exn + jsval" where
  "reviver (JObj ps) =
     (let dataType = get_prop ps ''dataType''; dataValue = get_prop ps ''value'' in
      if dataType = JStr ''Error'' then make_error dataValue
      else if dataType = JStr ''Map'' then new_Map dataValue
      else if dataType = JStr ''Set'' then new_Set dataValue
      else if dataType = JStr ''BigInt'' then BigInt dataValue
      else if dataType = JStr ''bigint'' then BigInt dataValue
      else Inr (JObj ps))"
| "reviver v = Inr v"

text \<open>
  \<open>JSON.parse(text, reviver)\<close> on the parsed value: members first, in order, then
  the value itself.  A member the reviver turns into \<open>undefined\<close> is deleted.
\<close>

fun revive :: "jsval \<Rightarrow> exn + jsval" where
  "revive (JArr xs) =
     (case sequence (map revive xs) of Inl e \<Rightarrow> Inl e | Inr vs \<Rightarrow> reviver (JArr vs))"
| "revive (JObj ps) =
     (case sequence (map (\<lambda>(k, v). revive v) ps) of
        Inl e \<Rightarrow> Inl e
      | Inr vs \<Rightarrow> reviver (JObj (filter (\<lambda>kv. snd kv \<noteq> JUndefined) (zip (map fst ps) vs))))"
| "revive v = reviver v"

definition deserializeUnsafe :: "string \<Rightarrow> exn + jsval" where
  "deserializeUnsafe json =
     (case JSON_parse json of Inl e \<Rightarrow> Inl e | Inr parsed \<Rightarrow> revive parsed)"

text \<open>
  \<open>toGenericObject\<close> is \<open>deserialize\<close> after \<open>serialize\<close>.  When \<open>serialize\<close> returns
  \<open>undefined\<close>, the parser is given the text of \<open>undefined\<close>.
\<close>

definition toGenericObject :: "jsval \<Rightarrow> (ValidationError, jsval) outcome" where
  "toGenericObject obj =
     deserialize (case serialize obj of None \<Rightarrow> ''undefined'' | Some json \<Rightarrow> json)"

section \<open>The RPC bridge: OneShotPay and WalletProxy\<close>

text \<open>
  The source of an error object: a message given to \<open>new Error\<close> (\<open>ErrorWith\<close> when
  the message ends with the message of an exception, which is the engine's), an
  exception that was caught, or the value a rejected promise carried.
\<close>

datatype js_error = Error string | ErrorWith string exn | Caught exn | Value jsval

datatype ProxyError = ProxyError js_error

text \<open>
  The channel handle (\<open>Postmate.ParentAPI\<close>), as far as the bridge uses it: \<open>call\<close>
  posts a message and returns, or throws.
\<close>

record channel =
  call_throws :: "exn option"

text \<open>
  The closure that \<open>rpcCall\<close> stores under a nonce.  It holds the \<open>resolve\<close> and
  \<open>reject\<close> of the promise of its call; what runs after them is the chain the call
  attached: \<open>OneShotPay.rpcCall\<close> attaches \<open>map\<close> and \<open>mapErr\<close>, both running
  \<open>restore\<close>; \<open>WalletProxy.rpcCall\<close> attaches \<open>map\<close> only.  A closure is stale when
  its promise was rejected by the executor already: settling it again does nothing.
\<close>

datatype pending = OneShotPay_callback bool | WalletProxy_callback | Stale_callback

text \<open>What the bridge does to the outside, in order.\<close>

datatype event =
    Fetch "(string \<times> string) list"
  | Prepare
  | ChildCall string "string option"
  | Restore nat
  | Resolve nat jsval
  | Reject nat ProxyError
  | ConsoleDebug jsval
  | ConsoleWarn jsval

record bridge =
  child :: "channel option"
  rpcNonce :: nat
  rpcCallbacks :: "(nat \<times> pending) list"
  isVisible :: bool
  trace :: "event list"

definition emit :: "event \<Rightarrow> bridge \<Rightarrow> bridge" where
  "emit e st = st\<lparr>trace := trace st @ [e]\<rparr>"

definition new_bridge :: bridge where
  "new_bridge = \<lparr>child = None, rpcNonce = 0, rpcCallbacks = [], isVisible = False, trace = []\<rparr>"

text \<open>What \<open>initialize\<close> leaves when the handshake has completed.\<close>

definition initialize :: "channel \<Rightarrow> bridge \<Rightarrow> bridge" where
  "initialize ch st = st\<lparr>child := Some ch\<rparr>"

text \<open>The request envelope \<open>{eventName, callbackNonce, params}\<close>.\<close>

definition envelope :: "string \<Rightarrow> nat \<Rightarrow> jsval \<Rightarrow> jsval" where
  "envelope eventName callbackNonce params =
     JObj [(''eventName'', JStr eventName),
           (''callbackNonce'', JNum (int callbackNonce)),
           (''params'', params)]"

text \<open>
  What \<open>rpcCall\<close> returns at once: a result that has already failed, or the promise
  of the call with the given nonce, still pending.
\<close>

datatype rpc_started = Failed ProxyError | Dispatched nat

text \<open>
  The executor of the promise in \<open>rpcCall\<close>: the nonce is taken, the callback is
  stored, the message is posted.  When \<open>call\<close> throws, the promise rejects with the
  exception and the stored callback stays in the table.
\<close>

definition dispatch :: "channel \<Rightarrow> pending \<Rightarrow> string \<Rightarrow> jsval \<Rightarrow> bridge \<Rightarrow> bridge \<times> nat \<times> exn option" where
  "dispatch ch cb eventName params st =
     (let callbackNonce = rpcNonce st;
          st1 = st\<lparr>rpcNonce := rpcNonce st + 1,
                    rpcCallbacks := AList.update callbackNonce cb (rpcCallbacks st)\<rparr>;
          st2 = emit (ChildCall eventName (serialize (envelope eventName callbackNonce params))) st1
      in case call_throws ch of
           None \<Rightarrow> (st2, callbackNonce, None)
         | Some e \<Rightarrow>
             (st2\<lparr>rpcCallbacks := AList.update callbackNonce Stale_callback (rpcCallbacks st2)\<rparr>,
              callbackNonce, Some e))"

definition OneShotPay_rpcCall :: "string \<Rightarrow> jsval \<Rightarrow> bool \<Rightarrow> bridge \<Rightarrow> bridge \<times> rpc_started" where
  "OneShotPay_rpcCall eventName params requireInteraction st =
     (case child st of
        None \<Rightarrow> (st, Failed (ProxyError (Error ''WalletProxy not initialized'')))
      | Some ch \<Rightarrow>
         (let st1 = emit Prepare st;
              st2 = (if requireInteraction then st1\<lparr>isVisible := True\<rparr> else st1)
          in case dispatch ch (OneShotPay_callback requireInteraction) eventName params st2 of
               (st3, n, None) \<Rightarrow> (st3, Dispatched n)
             | (st3, n, Some e) \<Rightarrow>
                 (let st4 = emit (Restore n) st3;
                      st5 = (if requireInteraction then st4\<lparr>isVisible := False\<rparr> else st4)
                  in (emit (Reject n (ProxyError (Caught e))) st5, Failed (ProxyError (Caught e))))))"

definition WalletProxy_rpcCall :: "string \<Rightarrow> jsval \<Rightarrow> bridge \<Rightarrow> bridge \<times> rpc_started" where
  "WalletProxy_rpcCall eventName params st =
     (case child st of
        None \<Rightarrow> (st, Failed (ProxyError (Error ''WalletProxy not initialized'')))
      | Some ch \<Rightarrow>
         (case dispatch ch WalletProxy_callback eventName params (emit Prepare st) of
            (st3, n, None) \<Rightarrow> (st3, Dispatched n)
          | (st3, n, Some e) \<Rightarrow>
              (emit (Reject n (ProxyError (Caught e))) st3, Failed (ProxyError (Caught e)))))"

text \<open>
  \<open>deserializeUnsafe\<close> of a field of the response: the parser converts an argument
  that is not a string to one.
\<close>

definition decode_result :: "jsval \<Rightarrow> exn + jsval" where
  "decode_result r = deserializeUnsafe (ToString r)"

text \<open>What became of the promise of a call: fulfilled with a value or rejected with an error.\<close>

type_synonym settlement = "nat \<times> (ProxyError + jsval)"

text \<open>
  The stored callback of the call with nonce \<open>n\<close>, applied to a response, followed by
  the chain of the call.  An exception of \<open>deserializeUnsafe\<close> leaves the callback:
  the promise of the call is then never settled.
\<close>

definition run_callback :: "nat \<Rightarrow> pending \<Rightarrow> jsval \<Rightarrow> bridge \<Rightarrow> exn + bridge \<times> settlement option" where
  "run_callback n cb result st =
     (case js_get result ''success'' of
        Inl e \<Rightarrow> Inl e
      | Inr success \<Rightarrow>
         (case js_get result ''result'' of
            Inl e \<Rightarrow> Inl e
          | Inr r \<Rightarrow>
             (case decode_result r of
                Inl e \<Rightarrow> Inl e
              | Inr v \<Rightarrow>
                 if \<not> truthy success then
                   (case cb of
                      OneShotPay_callback requireInteraction \<Rightarrow>
                        (let st1 = emit (Restore n) st;
                             st2 = (if requireInteraction then st1\<lparr>isVisible := False\<rparr> else st1)
                         in Inr (emit (Reject n (ProxyError (Value v))) st2,
                                 Some (n, Inl (ProxyError (Value v)))))
                    | WalletProxy_callback \<Rightarrow>
                        Inr (emit (Reject n (ProxyError (Value v))) st,
                             Some (n, Inl (ProxyError (Value v))))
                    | Stale_callback \<Rightarrow> Inr (st, None))
                 else
                   (case cb of
                      OneShotPay_callback requireInteraction \<Rightarrow>
                        (let st1 = emit (Restore n) st;
                             st2 = (if requireInteraction then st1\<lparr>isVisible := False\<rparr> else st1)
                         in Inr (emit (Resolve n v) st2, Some (n, Inr v)))
                    | WalletProxy_callback \<Rightarrow>
                        Inr (emit (Resolve n v) (emit (Restore n) st), Some (n, Inr v))
                    | Stale_callback \<Rightarrow> Inr (st, None)))))"

text \<open>
  The key \<open>rpcCallbacks.get\<close> is given: the table is keyed by the nonces, which are
  numbers from zero up, so any other value finds nothing.
\<close>

definition nonce_of :: "jsval \<Rightarrow> nat option" where
  "nonce_of key = (case key of JNum i \<Rightarrow> if 0 \<le> i then Some (nat i) else None | _ \<Rightarrow> None)"

definition callbacks_get :: "(nat \<times> pending) list \<Rightarrow> jsval \<Rightarrow> (nat \<times> pending) option" where
  "callbacks_get cbs key =
     (case nonce_of key of
        None \<Rightarrow> None
      | Some n \<Rightarrow> (case map_of cbs n of None \<Rightarrow> None | Some cb \<Rightarrow> Some (n, cb)))"

text \<open>
  How the handler of \<open>rpcCallback\<close> ends: it returns, the call of \<open>deserialize\<close> in
  it throws, or an exception escapes the function it passes to \<open>map\<close>.
\<close>

datatype handler_end = Returned | HandlerThrew exn | HandlerRejected exn

text \<open>
  The handler that \<open>initialize\<close> subscribes to \<open>rpcCallback\<close>, the same in both
  classes.  It returns the state, how it ended, and the call it settled, if any.
\<close>

definition on_rpcCallback :: "string \<Rightarrow> bridge \<Rightarrow> bridge \<times> handler_end \<times> settlement option" where
  "on_rpcCallback data st =
     (case deserialize data of
        Threw e \<Rightarrow> (st, HandlerThrew e, None)
      | Rejected e \<Rightarrow> (st, HandlerRejected e, None)
      | Unsettled \<Rightarrow> (st, Returned, None)
      | Err e \<Rightarrow> (st, Returned, None)
      | Ok result \<Rightarrow>
         (case js_get result ''callbackNonce'' of
            Inl e \<Rightarrow> (st, HandlerRejected e, None)
          | Inr key \<Rightarrow>
             (let st1 = emit (ConsoleDebug result) st in
              case callbacks_get (rpcCallbacks st1) key of
                None \<Rightarrow> (emit (ConsoleWarn result) st1, Returned, None)
              | Some (n, cb) \<Rightarrow>
                 (let st2 = st1\<lparr>rpcCallbacks := AList.delete n (rpcCallbacks st1)\<rparr> in
                  case run_callback n cb result st2 of
                    Inl e \<Rightarrow> (st2, HandlerRejected e, None)
                  | Inr (st3, s) \<Rightarrow> (st3, Returned, s)))))"

text \<open>
  What the chain of a call does when the stored callback settles the promise: the
  events it adds, by the class that made the call.
\<close>

definition chain_events :: "pending \<Rightarrow> nat \<Rightarrow> bool \<Rightarrow> jsval \<Rightarrow> event list" where
  "chain_events cb n ok v =
     (case cb of
        OneShotPay_callback i \<Rightarrow>
          [Restore n, if ok then Resolve n v else Reject n (ProxyError (Value v))]
      | WalletProxy_callback \<Rightarrow>
          (if ok then [Restore n, Resolve n v] else [Reject n (ProxyError (Value v))])
      | Stale_callback \<Rightarrow> [])"

section \<open>x402Utils\<close>

definition lower_char :: "char \<Rightarrow> char" where
  "lower_char c =
     (case map_of (zip ''ABCDEFGHIJKLMNOPQRSTUVWXYZ'' ''abcdefghijklmnopqrstuvwxyz'') c of
        Some l \<Rightarrow> l
      | None \<Rightarrow>
         (let n = (of_char c :: nat) in
          if 192 \<le> n \<and> n \<le> 222 \<and> n \<noteq> 215 then char_of (n + 32) else c))"

definition toLowerCase :: "string \<Rightarrow> string" where
  "toLowerCase s = map lower_char s"

text \<open>The method call \<open>v.toLowerCase()\<close>: only a string has the method.\<close>

definition js_toLowerCase :: "jsval \<Rightarrow> exn + string" where
  "js_toLowerCase v = (case v of JStr s \<Rightarrow> Inr (toLowerCase s) | _ \<Rightarrow> Inl TypeError)"

text \<open>Property read on a value that is neither \<open>null\<close> nor \<open>undefined\<close>.\<close>

definition field :: "jsval \<Rightarrow> string \<Rightarrow> jsval" where
  "field v k = (case js_get v k of Inl e \<Rightarrow> JUndefined | Inr x \<Rightarrow> x)"

datatype request_info = RequestString string | RequestURL string | RequestObject string

fun x402ResolveRequestUrl :: "request_info \<Rightarrow> string" where
  "x402ResolveRequestUrl (RequestString url) = url"
| "x402ResolveRequestUrl (RequestURL url) = url"
| "x402ResolveRequestUrl (RequestObject url) = url"

definition starts_json :: "string \<Rightarrow> bool" where
  "starts_json s = (s \<noteq> [] \<and> (hd s = CHR ''{'' \<or> hd s = CHR ''[''))"

text \<open>\<open>trimmed.replace(/^"+|"+$/g, "")\<close>\<close>

definition strip_quotes :: "string \<Rightarrow> string" where
  "strip_quotes s =
     rev (dropWhile (\<lambda>c. c = CHR 0x22) (rev (dropWhile (\<lambda>c. c = CHR 0x22) s)))"

text \<open>
  \<open>x402ParseJsonOrBase64Json\<close>, over the base64 decoder of the platform
  (\<open>x402Base64DecodeUtf8\<close>).  A text that leaves the embedding is not taken for an
  exception the \<open>catch\<close> would handle.
\<close>

definition decode_then_parse :: "(string \<Rightarrow> exn + string) \<Rightarrow> string \<Rightarrow> exn + jsval" where
  "decode_then_parse dec s = (case dec s of Inl e \<Rightarrow> Inl e | Inr decoded \<Rightarrow> JSON_parse decoded)"

definition x402ParseJsonOrBase64Json :: "(string \<Rightarrow> exn + string) \<Rightarrow> string \<Rightarrow> exn + jsval" where
  "x402ParseJsonOrBase64Json dec raw =
     (let trimmed = trim raw in
      if starts_json trimmed then JSON_parse trimmed
      else
        (case decode_then_parse dec trimmed of
           Inr v \<Rightarrow> Inr v
         | Inl OutOfModel \<Rightarrow> Inl OutOfModel
         | Inl e \<Rightarrow>
            (let unquoted = strip_quotes trimmed in
             if starts_json unquoted then JSON_parse unquoted
             else decode_then_parse dec unquoted)))"

definition x402NormalizeAcceptedPayments :: "jsval \<Rightarrow> exn + jsval list" where
  "x402NormalizeAcceptedPayments req =
     (case js_get req ''accepted'' of
        Inl e \<Rightarrow> Inl e
      | Inr accepted \<Rightarrow>
         (case js_get req ''paymentRequirements'' of
            Inl e \<Rightarrow> Inl e
          | Inr paymentRequirements \<Rightarrow>
             Inr (filter truthy
               ((if nullish accepted then []
                 else (case accepted of JArr xs \<Rightarrow> xs | _ \<Rightarrow> [accepted]))
                @ (case paymentRequirements of JArr xs \<Rightarrow> xs | _ \<Rightarrow> [])))))"

text \<open>
  \<open>x402GetChainIdFromNetwork\<close>: the pattern \<open>^eip155:(\d+)$\<close> on the network
  converted to a string, then \<open>Number\<close> of the digits, which is finite below
  \<open>2^1024 - 2^970\<close>.  The chain identifier is kept as the integer the digits denote.
\<close>

definition x402GetChainIdFromNetwork :: "jsval \<Rightarrow> nat option" where
  "x402GetChainIdFromNetwork network =
     (let s = ToString network; ds = drop 7 s in
      if take 7 s = ''eip155:'' \<and> ds \<noteq> [] \<and> list_all is_digit ds
      then (if nat_of_digits ds < 2 ^ 1024 - 2 ^ 970 then Some (nat_of_digits ds) else None)
      else None)"

definition x402IsUsdcOnBase :: "nat \<Rightarrow> jsval \<Rightarrow> exn + bool" where
  "x402IsUsdcOnBase chainId asset =
     (case js_toLowerCase asset of
        Inl e \<Rightarrow> Inl e
      | Inr a \<Rightarrow> Inr (chainId = 8453 \<and> a = ''0x833589fcd6edb6e08f4c7c32d4f71b54bda02913''))"

section \<open>OneShotPay.x402Fetch\<close>

datatype AjaxError = AjaxError js_error

record response =
  status :: int
  headers :: "(string \<times> string) list"

text \<open>
  What \<open>x402Fetch\<close> meets outside the object: the server (the response to the
  request sent with the given headers, or the exception of \<open>fetch\<close>), the clock in
  milliseconds, the base64 functions of the platform, and the wallet in the frame
  (the \<open>rpcCallback\<close> message it answers a posted message with, if it answers).
\<close>

record env =
  fetch :: "(string \<times> string) list \<Rightarrow> exn + response"
  now :: nat
  x402Base64DecodeUtf8 :: "string \<Rightarrow> exn + string"
  x402Base64EncodeUtf8 :: "string \<Rightarrow> exn + string"
  wallet :: "string \<Rightarrow> string option \<Rightarrow> string option"

text \<open>A \<open>Headers\<close> object: names in lower case, one value for a name.\<close>

definition headers_get :: "(string \<times> string) list \<Rightarrow> string \<Rightarrow> string option" where
  "headers_get hs name = map_of hs (toLowerCase name)"

definition headers_set :: "string \<Rightarrow> string \<Rightarrow> (string \<times> string) list \<Rightarrow> (string \<times> string) list" where
  "headers_set name v hs = AList.update (toLowerCase name) v hs"

text \<open>
  \<open>doFetch\<close>: the headers of \<open>init\<close>, overridden by the given ones, go out with the
  original request.
\<close>

definition doFetch :: "env \<Rightarrow> (string \<times> string) list \<Rightarrow> (string \<times> string) list \<Rightarrow> bridge \<Rightarrow> bridge \<times> (AjaxError + response)" where
  "doFetch e init_headers headersOverride st =
     (let hs = foldl (\<lambda>h (k, v). headers_set k v h) init_headers headersOverride in
      (emit (Fetch hs) st,
       case fetch e hs of Inl x \<Rightarrow> Inl (AjaxError (Caught x)) | Inr r \<Rightarrow> Inr r))"

text \<open>
  A call through the bridge and the answer of the wallet to it: the promise of the
  call settles when the wallet's message carries the nonce of the call.
\<close>

definition OneShotPay_call :: "env \<Rightarrow> string \<Rightarrow> jsval \<Rightarrow> bool \<Rightarrow> bridge \<Rightarrow> bridge \<times> (ProxyError, jsval) outcome" where
  "OneShotPay_call e eventName params requireInteraction st =
     (case OneShotPay_rpcCall eventName params requireInteraction st of
        (st1, Failed err) \<Rightarrow> (st1, Err err)
      | (st1, Dispatched n) \<Rightarrow>
         (case wallet e eventName (serialize (envelope eventName n params)) of
            None \<Rightarrow> (st1, Unsettled)
          | Some data \<Rightarrow>
             (case on_rpcCallback data st1 of
                (st2, h, Some (m, r)) \<Rightarrow>
                  (st2, if m = n then (case r of Inl err \<Rightarrow> Err err | Inr v \<Rightarrow> Ok v) else Unsettled)
              | (st2, h, None) \<Rightarrow> (st2, Unsettled))))"

definition getERC3009Signature :: "env \<Rightarrow> string \<Rightarrow> jsval \<Rightarrow> jsval \<Rightarrow> int \<Rightarrow> int \<Rightarrow> bridge \<Rightarrow> bridge \<times> (ProxyError, jsval) outcome" where
  "getERC3009Signature e recipient destinationAddress amount validUntil validAfter st =
     OneShotPay_call e ''getERC3009Signature''
       (JObj [(''recipient'', JStr recipient),
              (''destinationAddress'', destinationAddress),
              (''amount'', amount),
              (''validUntil'', JNum validUntil),
              (''validAfter'', JNum validAfter)])
       True st"

text \<open>
  \<open>JSON.stringify\<close> of the engine, without a replacer: properties in their order, an
  \<open>undefined\<close> property left out, an \<open>undefined\<close> element written \<open>null\<close>, a
  \<open>TypeError\<close> on a bigint, \<open>{}\<close> for a \<open>Map\<close> and a \<open>Set\<close>, which have no own
  enumerable properties.  Which properties of an \<open>Error\<close> are enumerable depends on
  how it was made (a name that was assigned is, a message given to the constructor
  is not), which the embedding does not record: an \<open>Error\<close> leaves it.
\<close>

fun JSON_stringify :: "jsval \<Rightarrow> exn + string option" where
  "JSON_stringify JUndefined = Inr None"
| "JSON_stringify JNull = Inr (Some ''null'')"
| "JSON_stringify (JBool b) = Inr (Some (if b then ''true'' else ''false''))"
| "JSON_stringify (JNum n) = Inr (Some (show_int n))"
| "JSON_stringify (JStr s) = Inr (Some (strEscape s))"
| "JSON_stringify (JBigInt n) = Inl TypeError"
| "JSON_stringify (JBigIntObj n) = Inl TypeError"
| "JSON_stringify (JArr xs) =
     (case sequence (map JSON_stringify xs) of
        Inl e \<Rightarrow> Inl e
      | Inr ts \<Rightarrow>
         Inr (Some (''['' @ join '','' (map (\<lambda>t. case t of None \<Rightarrow> ''null'' | Some x \<Rightarrow> x) ts) @ '']'')))"
| "JSON_stringify (JObj ps) =
     (case sequence (map (\<lambda>(k, v). JSON_stringify v) ps) of
        Inl e \<Rightarrow> Inl e
      | Inr ts \<Rightarrow>
         Inr (Some (''{'' @ join '','' (concat (map emit_member (zip (map fst ps) ts))) @ ''}'')))"
| "JSON_stringify (JError name message stack) = Inl OutOfModel"
| "JSON_stringify (JMap es) = Inr (Some ''{}'')"
| "JSON_stringify (JSet xs) = Inr (Some ''{}'')"

text \<open>
  \<open>Object.keys(v).length\<close> of a value that is neither \<open>null\<close> nor \<open>undefined\<close>, as
  \<open>x402Fetch\<close> takes it of a value of the parsed challenge (which is no \<open>Error\<close>).
\<close>

fun keys_length :: "jsval \<Rightarrow> nat" where
  "keys_length (JObj ps) = length ps"
| "keys_length (JArr xs) = length xs"
| "keys_length (JStr s) = length s"
| "keys_length v = 0"

text \<open>The payment payload that the retry carries, built from the challenge and the signature.\<close>

definition paymentPayload :: "jsval \<Rightarrow> string \<Rightarrow> jsval \<Rightarrow> jsval \<Rightarrow> jsval \<Rightarrow> jsval \<Rightarrow> int \<Rightarrow> jsval \<Rightarrow> jsval \<Rightarrow> jsval" where
  "paymentPayload req requestUrl network amount asset payTo maxTimeoutSeconds extra signed =
     (let resource = field req ''resource'';
          url = (if nullish resource then JUndefined else field resource ''url'');
          description = (if nullish resource then JUndefined else field resource ''description'');
          mimeType = (if nullish resource then JUndefined else field resource ''mimeType'')
      in JObj
        [(''x402Version'', (case field req ''x402Version'' of JNum v \<Rightarrow> JNum v | _ \<Rightarrow> JNum 2)),
         (''resource'', JObj
            ([(''url'', js_coalesce url (JStr requestUrl))]
             @ (if truthy description then [(''description'', description)] else [])
             @ (if truthy mimeType then [(''mimeType'', mimeType)] else []))),
         (''accepted'', JObj
            ([(''scheme'', JStr ''exact''),
              (''network'', network),
              (''amount'', amount),
              (''asset'', asset),
              (''payTo'', payTo),
              (''maxTimeoutSeconds'', JNum maxTimeoutSeconds)]
             @ (if keys_length extra \<noteq> 0 then [(''extra'', extra)] else []))),
         (''payload'', JObj
            [(''signature'', field signed ''signature''),
             (''authorization'', JObj
                [(''from'', field signed ''from''),
                 (''to'', field signed ''to''),
                 (''value'', field signed ''value''),
                 (''validAfter'', field signed ''validAfter''),
                 (''validBefore'', field signed ''validBefore''),
                 (''nonce'', field signed ''nonce'')])])])"

type_synonym x402_result = "(AjaxError + ProxyError, response) outcome"

definition ajax :: "string \<Rightarrow> x402_result" where
  "ajax msg = Err (Inl (AjaxError (Error msg)))"

text \<open>
  The function \<open>x402Fetch\<close> passes to \<open>andThen\<close> after the signature: the payload is
  written, encoded and sent in the header \<open>PAYMENT-SIGNATURE\<close>; the response to
  that request is the result.
\<close>

definition x402_retry :: "env \<Rightarrow> (string \<times> string) list \<Rightarrow> jsval \<Rightarrow> jsval \<Rightarrow> bridge \<Rightarrow> bridge \<times> x402_result" where
  "x402_retry e init_headers payload signed st =
     (if nullish signed then (st, Rejected TypeError)
      else
        (case JSON_stringify payload of
           Inl x \<Rightarrow> (st, Rejected x)
         | Inr text \<Rightarrow>
            (case x402Base64EncodeUtf8 e (case text of None \<Rightarrow> ''undefined'' | Some t \<Rightarrow> t) of
               Inl x \<Rightarrow> (st, Rejected x)
             | Inr encoded \<Rightarrow>
                (case doFetch e init_headers [(''PAYMENT-SIGNATURE'', encoded)] st of
                   (st1, Inl err) \<Rightarrow> (st1, Err (Inl err))
                 | (st1, Inr r) \<Rightarrow> (st1, Ok r)))))"

text \<open>
  \<open>x402Fetch\<close> from the validity window on: the window in whole seconds, the
  signature from the wallet, the retry.
\<close>

definition x402_sign :: "env \<Rightarrow> request_info \<Rightarrow> (string \<times> string) list \<Rightarrow> jsval \<Rightarrow> jsval \<Rightarrow> bridge \<Rightarrow> bridge \<times> x402_result" where
  "x402_sign e input init_headers req exact st =
     (let network = field exact ''network'';
          amount = field exact ''amount'';
          asset = field exact ''asset'';
          payTo = field exact ''payTo'';
          extra = js_coalesce (field exact ''extra'') (JObj []);
          maxTimeoutSeconds = (case field exact ''maxTimeoutSeconds'' of JNum t \<Rightarrow> t | _ \<Rightarrow> 60);
          nowSeconds = int (now e div 1000);
          validAfter = nowSeconds;
          validUntil = nowSeconds + maxTimeoutSeconds;
          requestUrl = x402ResolveRequestUrl input
      in case getERC3009Signature e requestUrl payTo amount validUntil validAfter st of
           (st1, Ok signed) \<Rightarrow>
             x402_retry e init_headers
               (paymentPayload req requestUrl network amount asset payTo maxTimeoutSeconds extra signed)
               signed st1
         | (st1, Err err) \<Rightarrow> (st1, Err (Inr err))
         | (st1, Threw x) \<Rightarrow> (st1, Threw x)
         | (st1, Rejected x) \<Rightarrow> (st1, Rejected x)
         | (st1, Unsettled) \<Rightarrow> (st1, Unsettled))"

text \<open>
  \<open>x402Fetch\<close> from the entry it has selected: the four fields, the chain, the
  asset and the transfer method are checked before anything is signed.
\<close>

definition x402_pay :: "env \<Rightarrow> request_info \<Rightarrow> (string \<times> string) list \<Rightarrow> jsval \<Rightarrow> jsval \<Rightarrow> bridge \<Rightarrow> bridge \<times> x402_result" where
  \<open>x402_pay e input init_headers req exact st =
     (let network = field exact ''network'';
          amount = field exact ''amount'';
          asset = field exact ''asset'';
          payTo = field exact ''payTo''
      in if \<not> truthy network \<or> \<not> truthy amount \<or> \<not> truthy asset \<or> \<not> truthy payTo then
           (st, ajax ''x402 PAYMENT-REQUIRED header missing one of: network, amount, asset, payTo.'')
         else
           (case x402GetChainIdFromNetwork network of
              None \<Rightarrow>
                (st, ajax (''Unsupported x402 network "'' @ ToString network
                           @ ''". Only eip155:<chainId> is supported.''))
            | Some chainId \<Rightarrow>
               (case x402IsUsdcOnBase chainId asset of
                  Inl x \<Rightarrow> (st, Rejected x)
                | Inr False \<Rightarrow>
                    (st, ajax (''Unsupported x402 payment. Only USDC on Base is supported (got asset=''
                               @ ToString asset @ '', network='' @ ToString network @ '').''))
                | Inr True \<Rightarrow>
                   (let extra = js_coalesce (field exact ''extra'') (JObj []);
                        method = js_coalesce (field extra ''assetTransferMethod'')
                                             (field extra ''asset_transfer_method'')
                    in if \<not> truthy method then x402_sign e input init_headers req exact st
                       else
                         (case js_toLowerCase method of
                            Inl x \<Rightarrow> (st, Rejected x)
                          | Inr m \<Rightarrow>
                             if m \<noteq> ''eip3009'' then
                               (st, ajax (''Unsupported x402 assetTransferMethod "'' @ ToString method
                                          @ ''". Only "eip3009" is supported.''))
                             else x402_sign e input init_headers req exact st)))))\<close>

text \<open>The first accepted entry whose scheme is \<open>exact\<close> in any letter case.\<close>

fun find_exact :: "jsval list \<Rightarrow> exn + jsval option" where
  "find_exact [] = Inr None"
| "find_exact (p # ps) =
     (case js_toLowerCase (js_coalesce (field p ''scheme'') (JStr [])) of
        Inl e \<Rightarrow> Inl e
      | Inr scheme \<Rightarrow> if scheme = ''exact'' then Inr (Some p) else find_exact ps)"

text \<open>
  What \<open>x402Fetch\<close> makes of a response with status 402: a result at once, or the
  parsed challenge and the entry selected from it.
\<close>

datatype selection = Final x402_result | Selected jsval jsval

definition x402_challenge :: "env \<Rightarrow> response \<Rightarrow> selection" where
  "x402_challenge e initialResponse =
     (case (case headers_get (headers initialResponse) ''payment-required'' of
              Some h \<Rightarrow> Some h
            | None \<Rightarrow> headers_get (headers initialResponse) ''PAYMENT-REQUIRED'') of
        None \<Rightarrow> Final (ajax ''Received HTTP 402 but missing PAYMENT-REQUIRED header for x402.'')
      | Some paymentRequiredHeader \<Rightarrow>
         if paymentRequiredHeader = [] then
           Final (ajax ''Received HTTP 402 but missing PAYMENT-REQUIRED header for x402.'')
         else
           (case x402ParseJsonOrBase64Json (x402Base64DecodeUtf8 e) paymentRequiredHeader of
              Inl OutOfModel \<Rightarrow> Final (Rejected OutOfModel)
            | Inl x \<Rightarrow>
                Final (Err (Inl (AjaxError
                  (ErrorWith ''Failed to parse PAYMENT-REQUIRED header for x402: '' x))))
            | Inr req \<Rightarrow>
               (case x402NormalizeAcceptedPayments req of
                  Inl x \<Rightarrow> Final (Rejected x)
                | Inr accepted \<Rightarrow>
                   (case find_exact accepted of
                      Inl x \<Rightarrow> Final (Rejected x)
                    | Inr None \<Rightarrow>
                        Final (ajax ''x402 endpoint does not offer the Exact scheme (required).'')
                    | Inr (Some exact) \<Rightarrow> Selected req exact))))"

definition x402Fetch :: "env \<Rightarrow> request_info \<Rightarrow> (string \<times> string) list \<Rightarrow> bridge \<Rightarrow> bridge \<times> x402_result" where
  "x402Fetch e input init_headers st =
     (case doFetch e init_headers [] st of
        (st1, Inl err) \<Rightarrow> (st1, Err (Inl err))
      | (st1, Inr initialResponse) \<Rightarrow>
         if status initialResponse \<noteq> 402 then (st1, Ok initialResponse)
         else
           (case x402_challenge e initialResponse of
              Final result \<Rightarrow> (st1, result)
            | Selected req exact \<Rightarrow> x402_pay e input init_headers req exact st1))"

section \<open>Equality up to the order of properties\<close>

text \<open>
  \<open>sort_properties\<close> puts the properties of every plain object inside a value in
  the order of their keys, and changes nothing else: the elements of an array, the
  entries of a \<open>Map\<close> and the members of a \<open>Set\<close> keep their order.  Two values
  are equal up to the order in which properties were inserted when they have the
  same image.
\<close>

fun sort_properties :: "jsval \<Rightarrow> jsval" where
  "sort_properties (JArr xs) = JArr (map sort_properties xs)"
| "sort_properties (JObj ps) = JObj (sort_key fst (map (\<lambda>(k, v). (k, sort_properties v)) ps))"
| "sort_properties (JError name message stack) =
     JError (sort_properties name) (sort_properties message) (sort_properties stack)"
| "sort_properties (JMap es) = JMap (map (\<lambda>(k, v). (sort_properties k, sort_properties v)) es)"
| "sort_properties (JSet xs) = JSet (map sort_properties xs)"
| "sort_properties v = v"

definition same_up_to_property_order :: "jsval \<Rightarrow> jsval \<Rightarrow> bool" where
  "same_up_to_property_order v w = (sort_properties v = sort_properties w)"

text \<open>
  \<open>tag_bigints\<close> puts, in place of every primitive bigint inside a value (in an
  array, a plain object, a \<open>Map\<close> or a \<open>Set\<close>, at any depth), the plain object
  \<open>{dataType: "bigint", value: <decimal digits>}\<close>.
\<close>

fun tag_bigints :: "jsval \<Rightarrow> jsval" where
  "tag_bigints (JBigInt n) = JObj [(''dataType'', JStr ''bigint''), (''value'', JStr (show_int n))]"
| "tag_bigints (JArr xs) = JArr (map tag_bigints xs)"
| "tag_bigints (JObj ps) = JObj (map (\<lambda>(k, v). (k, tag_bigints v)) ps)"
| "tag_bigints (JMap es) = JMap (map (\<lambda>(k, v). (tag_bigints k, tag_bigints v)) es)"
| "tag_bigints (JSet xs) = JSet (map tag_bigints xs)"
| "tag_bigints v = v"

section \<open>JSON text\<close>

text \<open>
  The values \<open>JSON.parse\<close> returns (\<open>is_json\<close>: no key twice in an object) and the
  text of such a value without white space, members in their order (\<open>json_text\<close>).
  Both writers produce texts of this form, and \<open>separated\<close> is what follows a value
  inside such a text: nothing, a comma or a closing bracket.  \<open>in_own_order\<close> puts
  the properties of every object of a value in the order of own properties.
\<close>

fun is_json :: "jsval \<Rightarrow> bool" where
  "is_json JNull = True"
| "is_json (JBool b) = True"
| "is_json (JNum n) = (\<bar>n\<bar> \<le> 9007199254740992)"
| "is_json (JStr s) = True"
| "is_json (JArr xs) = list_all is_json xs"
| "is_json (JObj ps) = (distinct (map fst ps) \<and> list_all (\<lambda>(k, v). is_json v) ps)"
| "is_json v = False"






section \<open>The values that come back\<close>

text \<open>
  \<open>wire\<close> is the tree of the text that \<open>serialize\<close> writes for a value: the
  wrappers of the replacer in place of a bigint, an \<open>Error\<close>, a \<open>Map\<close> and a \<open>Set\<close>,
  the properties of an object in the order of their keys.
\<close>

fun wire :: "jsval \<Rightarrow> jsval" where
  "wire (JBigInt n) = JObj [(''dataType'', JStr ''bigint''), (''value'', JStr (show_int n))]"
| "wire (JArr xs) = JArr (map wire xs)"
| "wire (JObj ps) = JObj (sort_key fst (map (\<lambda>(k, v). (k, wire v)) ps))"
| "wire (JError name message stack) =
     JObj [(''dataType'', JStr ''Error''),
           (''value'', JObj ([(''message'', message), (''name'', name)]
                            @ (if stack = JUndefined then [] else [(''stack'', stack)])))]"
| "wire (JMap es) =
     JObj [(''dataType'', JStr ''Map''), (''value'', JArr (map (\<lambda>(k, v). JArr [wire k, wire v]) es))]"
| "wire (JSet xs) = JObj [(''dataType'', JStr ''Set''), (''value'', JArr (map wire xs))]"
| "wire v = v"

text \<open>
  A plain object that \<open>processValue\<close> takes for a wrapper: it has the keys
  \<open>dataType\<close> and \<open>value\<close>, and its \<open>dataType\<close> is one of the five tags.
\<close>

definition reserved :: "(string \<times> jsval) list \<Rightarrow> bool" where
  "reserved ps =
     (''dataType'' \<in> fst ` set ps \<and> ''value'' \<in> fst ` set ps
      \<and> get_prop ps ''dataType''
          \<in> {JStr ''Error'', JStr ''Map'', JStr ''Set'', JStr ''BigInt'', JStr ''bigint''})"

fun nonempty_string :: "jsval \<Rightarrow> bool" where
  "nonempty_string (JStr s) = (s \<noteq> [])"
| "nonempty_string v = False"

text \<open>
  The values on which the round trip is the identity: null, booleans, numbers,
  strings and bigints; arrays and plain objects of such values, no object being
  \<open>reserved\<close> or having a key \<open>__proto__\<close>; an \<open>Error\<close> whose name, message and
  stack are non-empty strings; a \<open>Map\<close> and a \<open>Set\<close> of JSON values.  The primitive
  keys of a \<open>Map\<close> and the primitive members of a \<open>Set\<close> are distinct, as they are in
  every \<open>Map\<close> and \<open>Set\<close>.
\<close>

fun supported :: "jsval \<Rightarrow> bool" where
  "supported JUndefined = False"
| "supported (JBigIntObj n) = False"
| "supported (JArr xs) = list_all supported xs"
| "supported (JNum n) = (\<bar>n\<bar> \<le> 9007199254740992)"
| "supported (JObj ps) =
     (distinct (map fst ps) \<and> \<not> reserved ps \<and> ''__proto__'' \<notin> fst ` set ps
      \<and> list_all (\<lambda>(k, v). supported v) ps)"
| "supported (JError name message stack) =
     (nonempty_string name \<and> nonempty_string message \<and> nonempty_string stack)"
| "supported (JMap es) =
     (list_all (\<lambda>(k, v). is_json k \<and> is_json v) es \<and> distinct (filter is_primitive (map fst es)))"
| "supported (JSet xs) = (list_all is_json xs \<and> distinct (filter is_primitive xs))"
| "supported v = True"

section \<open>A wallet, a server and their challenges\<close>

text \<open>
  Concrete inputs for the statements below: a signed authorization, a wallet that
  answers the first call of a bridge with it, a server that asks for payment until
  the request carries a payment signature, and challenges as the server may send
  them; in the last one an entry of another scheme comes before the entry of
  scheme \<open>Exact\<close>.
\<close>

definition ex_signed :: jsval where
  "ex_signed =
     JObj [(''from'', JStr ''0xF00''), (''nonce'', JStr ''0x01''), (''signature'', JStr ''0x5167''),
           (''to'', JStr ''0xAbc''), (''validAfter'', JNum 5), (''validBefore'', JNum 65),
           (''value'', JStr ''1000'')]"

definition ex_reply :: "bool \<Rightarrow> nat \<Rightarrow> jsval \<Rightarrow> jsval" where
  "ex_reply ok n v =
     JObj [(''callbackNonce'', JNum (int n)),
           (''result'', (case serialize v of None \<Rightarrow> JUndefined | Some t \<Rightarrow> JStr t)),
           (''success'', JBool ok)]"

definition ex_message :: "bool \<Rightarrow> nat \<Rightarrow> jsval \<Rightarrow> string" where
  "ex_message ok n v = (case serialize (ex_reply ok n v) of None \<Rightarrow> [] | Some t \<Rightarrow> t)"

definition ex_env :: "string \<Rightarrow> env" where
  "ex_env challenge =
     \<lparr>fetch = (\<lambda>hs. if map_of hs ''payment-signature'' = None
                   then Inr \<lparr>status = 402, headers = [(''payment-required'', challenge)]\<rparr>
                   else Inr \<lparr>status = 200, headers = []\<rparr>),
      now = 5123,
      x402Base64DecodeUtf8 = (\<lambda>s. Inl TypeError),
      x402Base64EncodeUtf8 = (\<lambda>s. Inr (''b64:'' @ s)),
      wallet = (\<lambda>eventName data. serialize (ex_reply True 0 ex_signed))\<rparr>"

definition ex_bridge :: bridge where
  "ex_bridge = initialize \<lparr>call_throws = None\<rparr> new_bridge"

definition ex_entry :: "string \<Rightarrow> (string \<times> jsval) list \<Rightarrow> jsval" where
  "ex_entry network rest =
     JObj ([(''scheme'', JStr ''exact''), (''network'', JStr network), (''amount'', JStr ''1000''),
            (''asset'', JStr ''0x833589fCD6eDb6E08f4c7C32D4f71b54BdA02913''),
            (''payTo'', JStr ''0xAbc'')] @ rest)"

definition ex_challenge_base :: string where
  \<open>ex_challenge_base = ''{"accepted":[{"scheme":"exact","network":"eip155:8453","amount":"1000","asset":"0x833589fCD6eDb6E08f4c7C32D4f71b54BdA02913","payTo":"0xAbc"}]}''\<close>

definition ex_challenge_mainnet :: string where
  \<open>ex_challenge_mainnet = ''{"accepted":[{"scheme":"exact","network":"eip155:1","amount":"1000","asset":"0x833589fCD6eDb6E08f4c7C32D4f71b54BdA02913","payTo":"0xAbc"}]}''\<close>

definition ex_challenge_empty_method :: string where
  \<open>ex_challenge_empty_method = ''{"accepted":[{"scheme":"exact","network":"eip155:8453","amount":"1000","asset":"0x833589fCD6eDb6E08f4c7C32D4f71b54BdA02913","payTo":"0xAbc","extra":{"assetTransferMethod":""}}]}''\<close>

definition ex_challenge_two :: string where
  \<open>ex_challenge_two = ''{"accepted":[{"scheme":"exact","network":"eip155:1","amount":"1000","asset":"0x833589fCD6eDb6E08f4c7C32D4f71b54BdA02913","payTo":"0xAbc"},{"scheme":"exact","network":"eip155:8453","amount":"1000","asset":"0x833589fCD6eDb6E08f4c7C32D4f71b54BdA02913","payTo":"0xAbc"}]}''\<close>

definition ex_entry_upto :: jsval where
  "ex_entry_upto =
     JObj [(''scheme'', JStr ''upto''), (''network'', JStr ''eip155:8453''), (''amount'', JStr ''1''),
           (''asset'', JStr ''0x00''), (''payTo'', JStr ''0xDef'')]"

definition ex_entry_cased :: jsval where
  "ex_entry_cased =
     JObj [(''scheme'', JStr ''Exact''), (''network'', JStr ''eip155:8453''), (''amount'', JStr ''1000''),
           (''asset'', JStr ''0x833589fCD6eDb6E08f4c7C32D4f71b54BdA02913''),
           (''payTo'', JStr ''0xAbc'')]"

definition ex_challenge_later :: string where
  \<open>ex_challenge_later = ''{"accepted":[{"scheme":"upto","network":"eip155:8453","amount":"1","asset":"0x00","payTo":"0xDef"},{"scheme":"Exact","network":"eip155:8453","amount":"1000","asset":"0x833589fCD6eDb6E08f4c7C32D4f71b54BdA02913","payTo":"0xAbc"}]}''\<close>

definition ex_pending :: bridge where
  "ex_pending = fst (OneShotPay_rpcCall ''getStatus'' (JObj []) False ex_bridge)"

definition ex_two_pending :: bridge where
  "ex_two_pending = fst (OneShotPay_rpcCall ''getAccountAddress'' (JObj []) False ex_pending)"

definition ex_input :: request_info where
  "ex_input = RequestString ''https://example.test/paid''"

definition ex_params :: jsval where
  "ex_params =
     JObj [(''recipient'', JStr ''https://example.test/paid''), (''destinationAddress'', JStr ''0xAbc''),
           (''amount'', JStr ''1000''), (''validUntil'', JNum 65), (''validAfter'', JNum 5)]"

definition ex_payload :: jsval where
  "ex_payload =
     paymentPayload (JObj [(''accepted'', JArr [ex_entry ''eip155:8453'' []])])
       ''https://example.test/paid'' (JStr ''eip155:8453'') (JStr ''1000'')
       (JStr ''0x833589fCD6eDb6E08f4c7C32D4f71b54BdA02913'') (JStr ''0xAbc'') 60 (JObj []) ex_signed"

definition ex_payload_text :: string where
  "ex_payload_text = (case JSON_stringify ex_payload of Inr (Some t) \<Rightarrow> t | _ \<Rightarrow> [])"

section \<open>Properties of serialize\<close>

lemma stringify_unfold: "stringify v = stringify_step stringify (replacer v)"
  by (cases v) (simp_all add: js_or_def comp_def case_prod_unfold)

lemma escape_digit_char: "n < 10 \<Longrightarrow> escape_char (digit_char n) = [digit_char n]"
proof -
  assume "n < 10"
  then have "n \<in> {0, 1, 2, 3, 4, 5, 6, 7, 8, 9}" by auto
  then show ?thesis by (auto simp: escape_char_def digit_char_def)
qed

lemma escape_show_nat: "concat (map escape_char (show_nat n)) = show_nat n"
proof (induction n rule: show_nat.induct)
  case (1 n)
  show ?case
  proof (cases "n < 10")
    case True
    then show ?thesis by (simp add: show_nat.simps [of n] escape_digit_char)
  next
    case False
    then have "concat (map escape_char (show_nat (n div 10))) = show_nat (n div 10)"
      using 1 by simp
    then show ?thesis using False
      by (simp add: show_nat.simps [of n] escape_digit_char)
  qed
qed

lemma strEscape_show_int: "strEscape (show_int i) = CHR 0x22 # show_int i @ [CHR 0x22]"
  by (simp add: strEscape_def show_int_def escape_show_nat escape_char_def)

lemma stringify_tag_bigints: "stringify (tag_bigints v) = stringify v"
proof (induction v)
  case (JArr xs)
  then show ?case by (simp add: comp_def cong: map_cong)
next
  case (JObj ps)
  have "map (\<lambda>(k, v). (k, stringify v)) (map (\<lambda>(k, v). (k, tag_bigints v)) ps)
          = map (\<lambda>(k, v). (k, stringify v)) ps"
    using JObj by (auto simp: case_prod_unfold)
  then show ?case by (simp only: tag_bigints.simps stringify.simps)
next
  case (JMap es)
  have "map (\<lambda>(k, v). Some (emit_array [stringify k, stringify v]))
          (map (\<lambda>(k, v). (tag_bigints k, tag_bigints v)) es)
        = map (\<lambda>(k, v). Some (emit_array [stringify k, stringify v])) es"
    using JMap by (auto simp: case_prod_unfold)
  then show ?case by (simp only: tag_bigints.simps stringify.simps)
next
  case (JSet xs)
  then show ?case by (simp add: comp_def cong: map_cong)
qed simp_all

text \<open>
  C9, as the code has it.  The text that \<open>serialize\<close> writes for a value is the text
  it writes for the value with the wrapper \<open>{dataType: "bigint", value: <decimal
  digits>}\<close> in place of every primitive bigint in it, and for a bigint itself it is
  the text of that wrapper: the tag is \<open>bigint\<close>, in lower case.
\<close>

theorem serialize_bigint_tag:
  \<open>serialize v = serialize (tag_bigints v)
   \<and> replacer (JBigInt n) = JObj [(''dataType'', JStr ''bigint''), (''value'', JStr (show_int n))]
   \<and> serialize (JBigInt n) = Some (''{"dataType":"bigint","value":"'' @ show_int n @ ''"}'')\<close>
  by (simp add: serialize_def stringify_tag_bigints emit_object_def emit_member_def strEscape_show_int)
     (simp add: strEscape_def escape_char_def)

text \<open>The tag \<open>BigInt\<close> is written for a boxed \<open>BigInt\<close> object.\<close>

lemma serialize_boxed_BigInt_tag:
  \<open>serialize (JBigIntObj n) = Some (''{"dataType":"BigInt","value":"'' @ show_int n @ ''"}'')\<close>
  by (simp add: serialize_def emit_object_def emit_member_def strEscape_show_int)
     (simp add: strEscape_def escape_char_def)

text \<open>
  C9, as the claim states it, fails at the bigint \<open>5\<close>: the text written is not the
  wrapper tagged \<open>BigInt\<close>.
\<close>

theorem serialize_bigint_tag_counterexample:
  \<open>serialize (JBigInt 5) = Some ''{"dataType":"bigint","value":"5"}''
   \<and> serialize (JBigInt 5) \<noteq> Some ''{"dataType":"BigInt","value":"5"}''\<close>
  by code_simp

section \<open>Properties of deserialize\<close>

lemma deserialize_parse_error: "JSON_parse json = Inl e \<Longrightarrow> deserialize json = Threw e"
  by (simp add: deserialize_def)

lemma deserialize_never_Err: "deserialize json \<noteq> Err e"
  by (simp add: deserialize_def split: sum.splits)

text \<open>
  C4 at the text \<open>{\<close>, which is not JSON: \<open>deserialize\<close> does not return a failed
  result with a \<open>ValidationError\<close>, the \<open>SyntaxError\<close> of the parser leaves the call.
\<close>

theorem deserialize_malformed_throws:
  \<open>deserialize ''{'' = Threw SyntaxError \<and> deserialize ''{'' \<noteq> Err (ValidationError SyntaxError)\<close>
  by code_simp

section \<open>Properties of x402Fetch\<close>

lemma chain_id_1: "x402GetChainIdFromNetwork (JStr ''eip155:1'') = Some 1"
  by (simp add: x402GetChainIdFromNetwork_def is_digit_def nat_of_digits_def digit_val_def)

lemma chain_id_8453: "x402GetChainIdFromNetwork (JStr ''eip155:8453'') = Some 8453"
  by (simp add: x402GetChainIdFromNetwork_def is_digit_def nat_of_digits_def digit_val_def)

lemma usdc_on_base:
  "x402IsUsdcOnBase 8453 (JStr ''0x833589fCD6eDb6E08f4c7C32D4f71b54BdA02913'') = Inr True"
  by (simp add: x402IsUsdcOnBase_def js_toLowerCase_def toLowerCase_def lower_char_def)

lemma field_JObj: "field (JObj ps) k = get_prop ps k"
  by (simp add: field_def)

lemma doFetch_plain:
  "doFetch e hs [] st =
     (emit (Fetch hs) st, case fetch e hs of Inl x \<Rightarrow> Inl (AjaxError (Caught x)) | Inr r \<Rightarrow> Inr r)"
  by (simp add: doFetch_def)

lemma x402Fetch_selected:
  assumes "fetch e hs = Inr r" and "status r = 402" and "x402_challenge e r = Selected req exact"
  shows "x402Fetch e input hs st = x402_pay e input hs req exact (emit (Fetch hs) st)"
  using assms by (simp add: x402Fetch_def doFetch_plain)

lemma ex_fetch_first: "fetch (ex_env c) [] = Inr \<lparr>status = 402, headers = [(''payment-required'', c)]\<rparr>"
  by (simp add: ex_env_def)

lemma ex_challenge_mainnet_selected:
  "x402_challenge (ex_env ex_challenge_mainnet)
     \<lparr>status = 402, headers = [(''payment-required'', ex_challenge_mainnet)]\<rparr>
   = Selected (JObj [(''accepted'', JArr [ex_entry ''eip155:1'' []])]) (ex_entry ''eip155:1'' [])"
  by code_simp

lemma ex_challenge_empty_method_selected:
  "x402_challenge (ex_env ex_challenge_empty_method)
     \<lparr>status = 402, headers = [(''payment-required'', ex_challenge_empty_method)]\<rparr>
   = Selected
       (JObj [(''accepted'',
               JArr [ex_entry ''eip155:8453'' [(''extra'', JObj [(''assetTransferMethod'', JStr [])])]])])
       (ex_entry ''eip155:8453'' [(''extra'', JObj [(''assetTransferMethod'', JStr [])])])"
  by code_simp

lemma ex_entry_fields:
  "field (ex_entry n rest) ''network'' = JStr n"
  "field (ex_entry n rest) ''amount'' = JStr ''1000''"
  "field (ex_entry n rest) ''asset'' = JStr ''0x833589fCD6eDb6E08f4c7C32D4f71b54BdA02913''"
  "field (ex_entry n rest) ''payTo'' = JStr ''0xAbc''"
  "field (ex_entry n rest) ''extra'' = get_prop rest ''extra''"
  "field (ex_entry n rest) ''maxTimeoutSeconds'' = get_prop rest ''maxTimeoutSeconds''"
  by (simp_all add: ex_entry_def field_def get_prop_def split: option.splits)

lemma x402_pay_mainnet:
  assumes "field exact ''network'' = JStr ''eip155:1''"
    and "field exact ''asset'' = JStr a"
    and "toLowerCase a = ''0x833589fcd6edb6e08f4c7c32d4f71b54bda02913''"
    and "truthy (field exact ''amount'')" and "truthy (field exact ''payTo'')"
  shows "x402_pay e input init_headers req exact st =
           (st, ajax (''Unsupported x402 payment. Only USDC on Base is supported (got asset='' @ a
                      @ '', network=eip155:1).''))"
proof -
  have a: "a \<noteq> []" using assms(3) by (auto simp: toLowerCase_def)
  show ?thesis
    using assms a
    by (simp add: x402_pay_def Let_def chain_id_1 x402IsUsdcOnBase_def js_toLowerCase_def)
qed

lemma lower_usdc:
  "toLowerCase ''0x833589fCD6eDb6E08f4c7C32D4f71b54BdA02913''
     = ''0x833589fcd6edb6e08f4c7c32d4f71b54bda02913''"
  by (simp add: toLowerCase_def lower_char_def)

text \<open>
  C7.  The first response has status 402 and the entry selected from its challenge
  names the chain \<open>eip155:1\<close> and, in any letter case, the USDC contract of Base,
  with amount and payee present.  Then \<open>x402Fetch\<close> fails with the error for an
  unsupported payment, and the state it leaves is the state after the first request:
  no message was posted to the wallet, no nonce was taken, no callback was stored.
\<close>

theorem x402Fetch_wrong_chain:
  assumes "fetch e init_headers = Inr r" and "status r = 402"
    and "x402_challenge e r = Selected req exact"
    and "field exact ''network'' = JStr ''eip155:1''"
    and "field exact ''asset'' = JStr a"
    and "toLowerCase a = ''0x833589fcd6edb6e08f4c7c32d4f71b54bda02913''"
    and "truthy (field exact ''amount'')" and "truthy (field exact ''payTo'')"
  shows "x402Fetch e input init_headers st =
           (emit (Fetch init_headers) st,
            ajax (''Unsupported x402 payment. Only USDC on Base is supported (got asset='' @ a
                  @ '', network=eip155:1).''))"
  using assms by (simp add: x402Fetch_selected x402_pay_mainnet)

theorem x402Fetch_wrong_chain_witness:
  "x402Fetch (ex_env ex_challenge_mainnet) (RequestString ''https://example.test/paid'') [] ex_bridge =
     (emit (Fetch []) ex_bridge,
      ajax ''Unsupported x402 payment. Only USDC on Base is supported (got asset=0x833589fCD6eDb6E08f4c7C32D4f71b54BdA02913, network=eip155:1).'')"
proof -
  have l: "toLowerCase ''0x833589fCD6eDb6E08f4c7C32D4f71b54BdA02913''
             = ''0x833589fcd6edb6e08f4c7c32d4f71b54bda02913''"
    by (simp add: toLowerCase_def lower_char_def)
  show ?thesis
    using x402Fetch_wrong_chain [OF ex_fetch_first _ ex_challenge_mainnet_selected
        ex_entry_fields(1) ex_entry_fields(3) l, of "RequestString ''https://example.test/paid''" ex_bridge]
    by (simp add: ex_entry_fields)
qed

lemma x402_retry_not_ajax: "snd (x402_retry e hs payload signed st) \<noteq> ajax msg"
  by (auto simp: x402_retry_def ajax_def doFetch_def Let_def split: sum.splits option.splits prod.splits)

lemma x402_sign_not_ajax: "snd (x402_sign e input hs req exact st) \<noteq> ajax msg"
proof -
  obtain st1 res where g: "getERC3009Signature e (x402ResolveRequestUrl input) (field exact ''payTo'')
      (field exact ''amount'')
      (int (now e div 1000) + (case field exact ''maxTimeoutSeconds'' of JNum t \<Rightarrow> t | _ \<Rightarrow> 60))
      (int (now e div 1000)) st = (st1, res)"
    by (cases "getERC3009Signature e (x402ResolveRequestUrl input) (field exact ''payTo'')
      (field exact ''amount'')
      (int (now e div 1000) + (case field exact ''maxTimeoutSeconds'' of JNum t \<Rightarrow> t | _ \<Rightarrow> 60))
      (int (now e div 1000)) st") auto
  show ?thesis
    using x402_retry_not_ajax
    by (cases res) (auto simp: x402_sign_def Let_def g ajax_def)
qed

text \<open>
  C10.  The first response has status 402 and the entry selected from its challenge
  passes the checks of presence, chain and asset.  When the transfer method that
  \<open>x402Fetch\<close> reads from \<open>extra\<close> is the empty string (under \<open>assetTransferMethod\<close>,
  or under \<open>asset_transfer_method\<close> when the former is absent), \<open>x402Fetch\<close> goes on
  to the validity window, the signature and the retry, as it does without a method,
  and its result is none of the validation errors.
\<close>

theorem x402Fetch_empty_method:
  assumes "fetch e init_headers = Inr r" and "status r = 402"
    and "x402_challenge e r = Selected req exact"
    and "truthy (field exact ''network'')"
    and "truthy (field exact ''amount'')" and "truthy (field exact ''payTo'')"
    and "x402GetChainIdFromNetwork (field exact ''network'') = Some 8453"
    and "x402IsUsdcOnBase 8453 (field exact ''asset'') = Inr True"
    and "extra = js_coalesce (field exact ''extra'') (JObj [])"
    and "field extra ''assetTransferMethod'' = JStr []
         \<or> (nullish (field extra ''assetTransferMethod'')
             \<and> field extra ''asset_transfer_method'' = JStr [])"
  shows "x402Fetch e input init_headers st
           = x402_sign e input init_headers req exact (emit (Fetch init_headers) st)
         \<and> (\<forall>msg. snd (x402Fetch e input init_headers st) \<noteq> ajax msg)"
proof -
  have t: "truthy (field exact ''asset'')"
    using assms(8)
    by (cases "field exact ''asset''")
       (auto simp: x402IsUsdcOnBase_def js_toLowerCase_def toLowerCase_def)
  have m: "\<not> truthy (js_coalesce (field extra ''assetTransferMethod'')
                                (field extra ''asset_transfer_method''))"
    using assms(10) by (auto simp: js_coalesce_def nullish_def)
  have "x402Fetch e input init_headers st
           = x402_sign e input init_headers req exact (emit (Fetch init_headers) st)"
    using assms(1-8) t m unfolding assms(9)
    by (simp add: x402Fetch_selected x402_pay_def Let_def)
  then show ?thesis using x402_sign_not_ajax by simp
qed

theorem x402Fetch_empty_method_witness:
  \<open>x402Fetch (ex_env ex_challenge_empty_method) (RequestString ''https://example.test/paid'') [] ex_bridge
     = x402_sign (ex_env ex_challenge_empty_method) (RequestString ''https://example.test/paid'') []
         (JObj [(''accepted'',
                 JArr [ex_entry ''eip155:8453'' [(''extra'', JObj [(''assetTransferMethod'', JStr [])])]])])
         (ex_entry ''eip155:8453'' [(''extra'', JObj [(''assetTransferMethod'', JStr [])])])
         (emit (Fetch []) ex_bridge)
   \<and> snd (x402Fetch (ex_env ex_challenge_empty_method) (RequestString ''https://example.test/paid'') []
            ex_bridge)
       \<noteq> ajax ''Unsupported x402 assetTransferMethod "". Only "eip3009" is supported.''\<close>
proof -
  let ?x = "ex_entry ''eip155:8453'' [(''extra'', JObj [(''assetTransferMethod'', JStr [])])]"
  have c: "x402GetChainIdFromNetwork (field ?x ''network'') = Some 8453"
    by (simp add: ex_entry_fields chain_id_8453)
  have u: "x402IsUsdcOnBase 8453 (field ?x ''asset'') = Inr True"
    by (simp add: ex_entry_fields usdc_on_base)
  have m: "field (js_coalesce (field ?x ''extra'') (JObj [])) ''assetTransferMethod'' = JStr []
         \<or> (nullish (field (js_coalesce (field ?x ''extra'') (JObj [])) ''assetTransferMethod'')
             \<and> field (js_coalesce (field ?x ''extra'') (JObj [])) ''asset_transfer_method'' = JStr [])"
    by (simp add: ex_entry_fields get_prop_def js_coalesce_def nullish_def field_JObj)
  have "truthy (field ?x ''network'')" "truthy (field ?x ''amount'')" "truthy (field ?x ''payTo'')"
    by (simp_all add: ex_entry_fields)
  then show ?thesis
    using x402Fetch_empty_method [OF ex_fetch_first _ ex_challenge_empty_method_selected _ _ _ c u refl m,
        of "RequestString ''https://example.test/paid''" ex_bridge]
    by fastforce
qed

section \<open>Properties of the bridge\<close>

lemma js_get_field: "js_get v k = Inr x \<Longrightarrow> js_get v k' = Inr (field v k')"
  by (cases v) (auto simp: field_def)

lemma callbacks_get_nat: "callbacks_get cbs (JNum (int n)) = map_option (Pair n) (map_of cbs n)"
  by (simp add: callbacks_get_def nonce_of_def split: option.splits)

lemma on_rpcCallback_known:
  assumes "deserialize data = Ok result"
    and "js_get result ''callbackNonce'' = Inr (JNum (int n))"
    and "map_of (rpcCallbacks st) n = Some cb" and "cb \<noteq> Stale_callback"
    and "decode_result (field result ''result'') = Inr v"
  shows "on_rpcCallback data st =
           (st\<lparr>rpcCallbacks := AList.delete n (rpcCallbacks st),
               isVisible := (if cb = OneShotPay_callback True then False else isVisible st),
               trace := trace st @ ConsoleDebug result
                          # chain_events cb n (truthy (field result ''success'')) v\<rparr>,
            Returned,
            Some (n, if truthy (field result ''success'') then Inr v
                     else Inl (ProxyError (Value v))))"
proof -
  have s: "js_get result ''success'' = Inr (field result ''success'')"
    and r: "js_get result ''result'' = Inr (field result ''result'')"
    using assms(2) js_get_field by blast+
  show ?thesis
    using assms
    by (cases cb)
       (auto simp: on_rpcCallback_def callbacks_get_nat emit_def Let_def run_callback_def s r
          chain_events_def)
qed

lemma OneShotPay_rpcCall_dispatched:
  assumes "child st = Some ch" and "call_throws ch = None"
  shows "OneShotPay_rpcCall eventName params i st =
           (st\<lparr>rpcNonce := rpcNonce st + 1,
               rpcCallbacks := AList.update (rpcNonce st) (OneShotPay_callback i) (rpcCallbacks st),
               isVisible := (if i then True else isVisible st),
               trace := trace st @ [Prepare,
                  ChildCall eventName (serialize (envelope eventName (rpcNonce st) params))]\<rparr>,
            Dispatched (rpcNonce st))"
  using assms by (simp add: OneShotPay_rpcCall_def dispatch_def emit_def Let_def)

text \<open>
  C6.  A response decodes to an envelope whose \<open>callbackNonce\<close> finds nothing in the
  table.  The handler returns (it does not throw and nothing escapes it), it logs
  the envelope at debug level and then as a warning, the table is unchanged with
  every other field of the bridge, and no call is settled.
\<close>

theorem on_rpcCallback_unknown_nonce:
  assumes "deserialize data = Ok result"
    and "js_get result ''callbackNonce'' = Inr key"
    and "callbacks_get (rpcCallbacks st) key = None"
  shows "on_rpcCallback data st =
           (st\<lparr>trace := trace st @ [ConsoleDebug result, ConsoleWarn result]\<rparr>, Returned, None)"
  using assms by (simp add: on_rpcCallback_def emit_def Let_def)

theorem on_rpcCallback_unknown_nonce_witness:
  "on_rpcCallback (ex_message True 7 JNull) ex_pending =
     (ex_pending\<lparr>trace := trace ex_pending
          @ [ConsoleDebug (ex_reply True 7 JNull), ConsoleWarn (ex_reply True 7 JNull)]\<rparr>,
      Returned, None)
   \<and> rpcCallbacks ex_pending = [(0, OneShotPay_callback False)]"
proof -
  have d: "deserialize (ex_message True 7 JNull) = Ok (ex_reply True 7 JNull)"
    by code_simp
  have k: "js_get (ex_reply True 7 JNull) ''callbackNonce'' = Inr (JNum 7)"
    by (simp add: ex_reply_def get_prop_def)
  have c: "rpcCallbacks ex_pending = [(0, OneShotPay_callback False)]"
    by code_simp
  have n: "callbacks_get (rpcCallbacks ex_pending) (JNum 7) = None"
    by (simp add: c callbacks_get_def nonce_of_def)
  show ?thesis
    using on_rpcCallback_unknown_nonce [OF d k n] c by simp
qed

text \<open>
  C5.  Two calls are made on an initialized bridge whose channel posts: the second
  takes the nonce after the first, and both callbacks are in the table.  A response
  that carries the nonce of the second call and decodes settles the second call
  and no other, deletes the entry of the second call and leaves every other entry,
  that of the first call among them, as it was.  The same response once more finds
  no entry: it settles nothing and deletes nothing.
\<close>

theorem second_call_settles_alone:
  assumes "child st = Some ch" and "call_throws ch = None"
    and "OneShotPay_rpcCall eventA paramsA iA st = (stA, startedA)"
    and "OneShotPay_rpcCall eventB paramsB iB stA = (stB, startedB)"
    and "deserialize data = Ok result"
    and "js_get result ''callbackNonce'' = Inr (JNum (int (rpcNonce st + 1)))"
    and "decode_result (field result ''result'') = Inr v"
    and "on_rpcCallback data stB = (st', ended, settled)"
  shows "startedA = Dispatched (rpcNonce st) \<and> startedB = Dispatched (rpcNonce st + 1)
       \<and> map_of (rpcCallbacks stB) (rpcNonce st) = Some (OneShotPay_callback iA)
       \<and> map_of (rpcCallbacks stB) (rpcNonce st + 1) = Some (OneShotPay_callback iB)
       \<and> ended = Returned
       \<and> settled = Some (rpcNonce st + 1,
                          if truthy (field result ''success'') then Inr v
                          else Inl (ProxyError (Value v)))
       \<and> map_of (rpcCallbacks st') (rpcNonce st) = Some (OneShotPay_callback iA)
       \<and> map_of (rpcCallbacks st') (rpcNonce st + 1) = None
       \<and> (\<forall>k. k \<noteq> rpcNonce st + 1 \<longrightarrow> map_of (rpcCallbacks st') k = map_of (rpcCallbacks stB) k)
       \<and> on_rpcCallback data st'
           = (st'\<lparr>trace := trace st' @ [ConsoleDebug result, ConsoleWarn result]\<rparr>, Returned, None)"
proof -
  let ?a = "rpcNonce st"
  have A: "stA = st\<lparr>rpcNonce := ?a + 1,
               rpcCallbacks := AList.update ?a (OneShotPay_callback iA) (rpcCallbacks st),
               isVisible := (if iA then True else isVisible st),
               trace := trace st @ [Prepare,
                  ChildCall eventA (serialize (envelope eventA ?a paramsA))]\<rparr>"
    and sA: "startedA = Dispatched ?a"
    using assms(3) OneShotPay_rpcCall_dispatched [OF assms(1,2), of eventA paramsA iA] by auto
  have cA: "child stA = Some ch" and nA: "rpcNonce stA = ?a + 1" using A assms(1) by auto
  have B: "stB = stA\<lparr>rpcNonce := rpcNonce stA + 1,
               rpcCallbacks := AList.update (rpcNonce stA) (OneShotPay_callback iB) (rpcCallbacks stA),
               isVisible := (if iB then True else isVisible stA),
               trace := trace stA @ [Prepare,
                  ChildCall eventB (serialize (envelope eventB (rpcNonce stA) paramsB))]\<rparr>"
    and sB: "startedB = Dispatched (?a + 1)"
    using assms(4) OneShotPay_rpcCall_dispatched [OF cA assms(2), of eventB paramsB iB] nA by auto
  have mB: "map_of (rpcCallbacks stB) (?a + 1) = Some (OneShotPay_callback iB)"
    and mA: "map_of (rpcCallbacks stB) ?a = Some (OneShotPay_callback iA)"
    using A B by (simp_all add: update_conv')
  note k = on_rpcCallback_known [OF assms(5) assms(6) mB _ assms(7)]
  have st': "rpcCallbacks st' = AList.delete (?a + 1) (rpcCallbacks stB)"
    and e: "ended = Returned"
    and s: "settled = Some (?a + 1, if truthy (field result ''success'') then Inr v
                          else Inl (ProxyError (Value v)))"
    using k assms(8) by auto
  have d: "\<And>k. map_of (rpcCallbacks st') k = (if k = ?a + 1 then None else map_of (rpcCallbacks stB) k)"
    using st' by (simp add: delete_conv')
  have "callbacks_get (rpcCallbacks st') (JNum (int (?a + 1))) = None"
    using d callbacks_get_nat [of "rpcCallbacks st'" "?a + 1"] by simp
  then have again: "on_rpcCallback data st'
           = (st'\<lparr>trace := trace st' @ [ConsoleDebug result, ConsoleWarn result]\<rparr>, Returned, None)"
    using assms(5,6) by (simp add: on_rpcCallback_def emit_def Let_def)
  show ?thesis using sA sB mA mB e s d again by simp
qed

theorem second_call_settles_alone_witness:
  "snd (snd (on_rpcCallback (ex_message True 1 (JStr ''0xAbc'')) ex_two_pending))
     = Some (1, Inr (JStr ''0xAbc''))
   \<and> map_of (rpcCallbacks (fst (on_rpcCallback (ex_message True 1 (JStr ''0xAbc'')) ex_two_pending))) 0
     = Some (OneShotPay_callback False)
   \<and> map_of (rpcCallbacks (fst (on_rpcCallback (ex_message True 1 (JStr ''0xAbc'')) ex_two_pending))) 1
     = None"
proof -
  let ?data = "ex_message True 1 (JStr ''0xAbc'')"
  have c: "child ex_bridge = Some \<lparr>call_throws = None\<rparr>" and z: "rpcNonce ex_bridge = 0"
    by (simp_all add: ex_bridge_def initialize_def new_bridge_def)
  have a: "OneShotPay_rpcCall ''getStatus'' (JObj []) False ex_bridge
             = (ex_pending, snd (OneShotPay_rpcCall ''getStatus'' (JObj []) False ex_bridge))"
    by (simp add: ex_pending_def)
  have b: "OneShotPay_rpcCall ''getAccountAddress'' (JObj []) False ex_pending
             = (ex_two_pending, snd (OneShotPay_rpcCall ''getAccountAddress'' (JObj []) False ex_pending))"
    by (simp add: ex_two_pending_def)
  have d: "deserialize ?data = Ok (ex_reply True 1 (JStr ''0xAbc''))"
    by code_simp
  have k: "js_get (ex_reply True 1 (JStr ''0xAbc'')) ''callbackNonce'' = Inr (JNum (int (rpcNonce ex_bridge + 1)))"
    by (simp add: ex_reply_def get_prop_def z)
  have r: "decode_result (field (ex_reply True 1 (JStr ''0xAbc'')) ''result'') = Inr (JStr ''0xAbc'')"
    by code_simp
  have s: "truthy (field (ex_reply True 1 (JStr ''0xAbc'')) ''success'')"
    by (simp add: ex_reply_def field_def get_prop_def)
  have o: "on_rpcCallback ?data ex_two_pending
             = (fst (on_rpcCallback ?data ex_two_pending), fst (snd (on_rpcCallback ?data ex_two_pending)),
                snd (snd (on_rpcCallback ?data ex_two_pending)))"
    by simp
  show ?thesis
    using second_call_settles_alone [OF c _ a b d k r o] s z by simp
qed

lemma OneShotPay_rpcCall_transport_failure:
  assumes "child st = Some ch" and "call_throws ch = Some x"
  shows "OneShotPay_rpcCall eventName params i st =
           (st\<lparr>rpcNonce := rpcNonce st + 1,
               rpcCallbacks := AList.update (rpcNonce st) Stale_callback (rpcCallbacks st),
               isVisible := (if i then False else isVisible st),
               trace := trace st @ [Prepare,
                  ChildCall eventName (serialize (envelope eventName (rpcNonce st) params)),
                  Restore (rpcNonce st), Reject (rpcNonce st) (ProxyError (Caught x))]\<rparr>,
            Failed (ProxyError (Caught x)))"
  using assms by (simp add: OneShotPay_rpcCall_def dispatch_def emit_def Let_def)

text \<open>
  \<open>OneShotPay.rpcCall\<close> runs \<open>restore\<close> once for a call it has posted, whether the
  response reports success or failure: the response of the call appends one
  \<open>Restore\<close> with the nonce of the call to what the bridge has done.
\<close>

lemma OneShotPay_restore_once:
  assumes "child st = Some ch" and "call_throws ch = None"
    and "OneShotPay_rpcCall eventName params i st = (st1, started)"
    and "deserialize data = Ok result"
    and "js_get result ''callbackNonce'' = Inr (JNum (int (rpcNonce st)))"
    and "decode_result (field result ''result'') = Inr v"
  shows "trace (fst (on_rpcCallback data st1)) =
           trace st @ [Prepare, ChildCall eventName (serialize (envelope eventName (rpcNonce st) params)),
                       ConsoleDebug result, Restore (rpcNonce st),
                       if truthy (field result ''success'') then Resolve (rpcNonce st) v
                       else Reject (rpcNonce st) (ProxyError (Value v))]"
proof -
  have s1: "st1 = st\<lparr>rpcNonce := rpcNonce st + 1,
               rpcCallbacks := AList.update (rpcNonce st) (OneShotPay_callback i) (rpcCallbacks st),
               isVisible := (if i then True else isVisible st),
               trace := trace st @ [Prepare,
                  ChildCall eventName (serialize (envelope eventName (rpcNonce st) params))]\<rparr>"
    using assms(3) OneShotPay_rpcCall_dispatched [OF assms(1,2), of eventName params i] by auto
  have m: "map_of (rpcCallbacks st1) (rpcNonce st) = Some (OneShotPay_callback i)"
    using s1 by (simp add: update_conv')
  show ?thesis
    using on_rpcCallback_known [OF assms(4) assms(5) m _ assms(6)] s1
    by (simp add: chain_events_def)
qed

text \<open>
  C3 on \<open>WalletProxy\<close>.  A bridge of class \<open>WalletProxy\<close> is initialized, \<open>getStatus\<close>
  is called, and the wallet answers the call with a failure.  The call is rejected
  and \<open>restore\<close> has not run: \<open>WalletProxy.rpcCall\<close> attaches \<open>map\<close> only.
\<close>

theorem WalletProxy_failure_skips_restore:
  "trace (fst (on_rpcCallback (ex_message False 0 (JStr ''denied''))
                 (fst (WalletProxy_rpcCall ''getStatus'' (JObj []) ex_bridge))))
     = [Prepare,
        ChildCall ''getStatus'' (serialize (envelope ''getStatus'' 0 (JObj []))),
        ConsoleDebug (ex_reply False 0 (JStr ''denied'')),
        Reject 0 (ProxyError (Value (JStr ''denied'')))]
   \<and> snd (on_rpcCallback (ex_message False 0 (JStr ''denied''))
                 (fst (WalletProxy_rpcCall ''getStatus'' (JObj []) ex_bridge)))
       = (Returned, Some (0, Inl (ProxyError (Value (JStr ''denied'')))))"
  by code_simp

section \<open>The payment round trip\<close>

lemma OneShotPay_call_ok:
  assumes "child st = Some ch" and "call_throws ch = None"
    and "wallet e eventName (serialize (envelope eventName (rpcNonce st) params)) = Some data"
    and "deserialize data = Ok result"
    and "js_get result ''callbackNonce'' = Inr (JNum (int (rpcNonce st)))"
    and "truthy (field result ''success'')"
    and "decode_result (field result ''result'') = Inr v"
  shows "OneShotPay_call e eventName params i st =
           (st\<lparr>rpcNonce := rpcNonce st + 1,
               rpcCallbacks := AList.delete (rpcNonce st)
                  (AList.update (rpcNonce st) (OneShotPay_callback i) (rpcCallbacks st)),
               isVisible := (if i then False else isVisible st),
               trace := trace st @ [Prepare,
                  ChildCall eventName (serialize (envelope eventName (rpcNonce st) params)),
                  ConsoleDebug result, Restore (rpcNonce st), Resolve (rpcNonce st) v]\<rparr>,
            Ok v)"
proof -
  let ?st1 = "st\<lparr>rpcNonce := rpcNonce st + 1,
               rpcCallbacks := AList.update (rpcNonce st) (OneShotPay_callback i) (rpcCallbacks st),
               isVisible := (if i then True else isVisible st),
               trace := trace st @ [Prepare,
                  ChildCall eventName (serialize (envelope eventName (rpcNonce st) params))]\<rparr>"
  have m: "map_of (rpcCallbacks ?st1) (rpcNonce st) = Some (OneShotPay_callback i)"
    by (simp add: update_conv')
  show ?thesis
    using on_rpcCallback_known [OF assms(4) assms(5) m _ assms(7)] assms(3,6)
    by (simp add: OneShotPay_call_def OneShotPay_rpcCall_dispatched [OF assms(1,2)] chain_events_def)
qed

lemma find_exact_first:
  assumes "\<forall>p\<in>set pre. \<exists>s. js_toLowerCase (js_coalesce (field p ''scheme'') (JStr [])) = Inr s
                             \<and> s \<noteq> ''exact''"
    and "js_toLowerCase (js_coalesce (field x ''scheme'') (JStr [])) = Inr ''exact''"
  shows "find_exact (pre @ x # post) = Inr (Some x)"
  using assms by (induction pre) auto

lemma x402_challenge_first_exact:
  assumes "headers_get (headers r) ''payment-required'' = Some h" and "h \<noteq> []"
    and "x402ParseJsonOrBase64Json (x402Base64DecodeUtf8 e) h = Inr req"
    and "x402NormalizeAcceptedPayments req = Inr (pre @ x # post)"
    and "\<forall>p\<in>set pre. \<exists>s. js_toLowerCase (js_coalesce (field p ''scheme'') (JStr [])) = Inr s
                             \<and> s \<noteq> ''exact''"
    and "js_toLowerCase (js_coalesce (field x ''scheme'') (JStr [])) = Inr ''exact''"
  shows "x402_challenge e r = Selected req x"
  using assms(1-4) find_exact_first [OF assms(5,6), of post]
  by (simp add: x402_challenge_def)

text \<open>
  C2.  The first response has status 402 and carries a challenge; the challenge is
  read as \<open>req\<close>, and \<open>exact\<close> is the first of its accepted entries whose scheme is
  \<open>exact\<close> in any letter case: the entries before it have a scheme that is a string
  other than that, or none.  The entry names the chain \<open>eip155:8453\<close> and, in any
  letter case, the USDC contract of Base, with amount and payee present and a
  transfer method that is absent, empty or \<open>eip3009\<close>; the end of the validity window
  is a number that a double holds exactly; the bridge is initialized and its
  channel posts; the wallet answers the call with a success that decodes to a
  signed authorization, which is not \<open>null\<close>; the payload can be written and encoded,
  and the server answers the second request.  Then \<open>x402Fetch\<close> selects \<open>exact\<close> and
  returns the second response whatever its status, and what it has done is, in
  order: the first request, one call of \<open>getERC3009Signature\<close> for the payee and the
  amount of \<open>exact\<close> with \<open>validAfter\<close> the clock in whole seconds and \<open>validUntil\<close>
  that plus \<open>maxTimeoutSeconds\<close> (60 when it is not a number), the settling of that
  call, and one more request, which carries \<open>PAYMENT-SIGNATURE\<close> with the encoded
  text of a payload whose \<open>accepted.scheme\<close> is \<open>exact\<close>.
\<close>

theorem x402Fetch_pays_once:
  assumes first: "fetch e init_headers = Inr r1" "status r1 = 402"
    and header: "headers_get (headers r1) ''payment-required'' = Some h" "h \<noteq> []"
    and parsed: "x402ParseJsonOrBase64Json (x402Base64DecodeUtf8 e) h = Inr req"
    and accepted: "x402NormalizeAcceptedPayments req = Inr (pre @ exact # post)"
    and others: "\<forall>p\<in>set pre. \<exists>s. js_toLowerCase (js_coalesce (field p ''scheme'') (JStr [])) = Inr s
                                   \<and> s \<noteq> ''exact''"
    and scheme: "js_toLowerCase (js_coalesce (field exact ''scheme'') (JStr [])) = Inr ''exact''"
    and network: "field exact ''network'' = JStr ''eip155:8453''"
    and asset: "field exact ''asset'' = JStr a"
               "toLowerCase a = ''0x833589fcd6edb6e08f4c7c32d4f71b54bda02913''"
    and present: "truthy (field exact ''amount'')" "truthy (field exact ''payTo'')"
    and extra: "extra = js_coalesce (field exact ''extra'') (JObj [])"
    and transfer: "method = js_coalesce (field extra ''assetTransferMethod'')
                                        (field extra ''asset_transfer_method'')"
                  "\<not> truthy method \<or> js_toLowerCase method = Inr ''eip3009''"
    and bridge: "child st = Some ch" "call_throws ch = None"
    and seconds: "seconds = (case field exact ''maxTimeoutSeconds'' of JNum t \<Rightarrow> t | _ \<Rightarrow> 60)"
                 "int (now e div 1000) + seconds \<le> 9007199254740992"
    and params: "params = JObj [(''recipient'', JStr (x402ResolveRequestUrl input)),
                        (''destinationAddress'', field exact ''payTo''),
                        (''amount'', field exact ''amount''),
                        (''validUntil'', JNum (int (now e div 1000) + seconds)),
                        (''validAfter'', JNum (int (now e div 1000)))]"
    and posted: "posted = serialize (envelope ''getERC3009Signature'' (rpcNonce st) params)"
    and answer: "wallet e ''getERC3009Signature'' posted = Some data"
                "deserialize data = Ok result"
                "js_get result ''callbackNonce'' = Inr (JNum (int (rpcNonce st)))"
                "truthy (field result ''success'')"
                "decode_result (field result ''result'') = Inr signed" "\<not> nullish signed"
    and payload: "payload = paymentPayload req (x402ResolveRequestUrl input) (field exact ''network'')
                     (field exact ''amount'') (field exact ''asset'') (field exact ''payTo'')
                     seconds extra signed"
                 "JSON_stringify payload = Inr (Some text)"
    and encoded: "x402Base64EncodeUtf8 e text = Inr encoded"
    and second: "fetch e (headers_set ''PAYMENT-SIGNATURE'' encoded init_headers) = Inr r2"
  shows "x402_challenge e r1 = Selected req exact
       \<and> snd (x402Fetch e input init_headers st) = Ok r2
       \<and> trace (fst (x402Fetch e input init_headers st)) =
           trace st @ [Fetch init_headers, Prepare, ChildCall ''getERC3009Signature'' posted,
                       ConsoleDebug result, Restore (rpcNonce st), Resolve (rpcNonce st) signed,
                       Fetch (headers_set ''PAYMENT-SIGNATURE'' encoded init_headers)]
       \<and> field (field payload ''accepted'') ''scheme'' = JStr ''exact''"
proof -
  have sel: "x402_challenge e r1 = Selected req exact"
    by (rule x402_challenge_first_exact [OF header parsed accepted others scheme])
  have a: "a \<noteq> []" using asset(2) by (auto simp: toLowerCase_def)
  let ?st0 = "emit (Fetch init_headers) st"
  have pay: "x402Fetch e input init_headers st = x402_sign e input init_headers req exact ?st0"
    using first sel network asset present extra transfer a
    by (auto simp: x402Fetch_selected x402_pay_def Let_def chain_id_8453 x402IsUsdcOnBase_def
        js_toLowerCase_def)
  have c0: "child ?st0 = Some ch" and n0: "rpcNonce ?st0 = rpcNonce st"
    using bridge(1) by (simp_all add: emit_def)
  have w0: "wallet e ''getERC3009Signature''
              (serialize (envelope ''getERC3009Signature'' (rpcNonce ?st0) params)) = Some data"
    using posted answer(1) n0 by simp
  have k0: "js_get result ''callbackNonce'' = Inr (JNum (int (rpcNonce ?st0)))"
    using answer(3) n0 by simp
  note call = OneShotPay_call_ok [OF c0 bridge(2) w0 answer(2) k0 answer(4) answer(5), of True]
  have sign: "getERC3009Signature e (x402ResolveRequestUrl input) (field exact ''payTo'')
                (field exact ''amount'') (int (now e div 1000) + seconds) (int (now e div 1000)) ?st0
              = (?st0\<lparr>rpcNonce := rpcNonce ?st0 + 1,
                   rpcCallbacks := AList.delete (rpcNonce ?st0)
                      (AList.update (rpcNonce ?st0) (OneShotPay_callback True) (rpcCallbacks ?st0)),
                   isVisible := False,
                   trace := trace ?st0 @ [Prepare,
                      ChildCall ''getERC3009Signature''
                        (serialize (envelope ''getERC3009Signature'' (rpcNonce ?st0) params)),
                      ConsoleDebug result, Restore (rpcNonce ?st0), Resolve (rpcNonce ?st0) signed]\<rparr>,
                 Ok signed)"
    using call unfolding getERC3009Signature_def params by simp
  have sch: "field (field payload ''accepted'') ''scheme'' = JStr ''exact''"
    unfolding payload(1) by (simp add: paymentPayload_def Let_def field_JObj get_prop_def)
  have "x402_sign e input init_headers req exact ?st0 =
          (?st0\<lparr>rpcNonce := rpcNonce ?st0 + 1,
                   rpcCallbacks := AList.delete (rpcNonce ?st0)
                      (AList.update (rpcNonce ?st0) (OneShotPay_callback True) (rpcCallbacks ?st0)),
                   isVisible := False,
                   trace := trace ?st0 @ [Prepare,
                      ChildCall ''getERC3009Signature''
                        (serialize (envelope ''getERC3009Signature'' (rpcNonce ?st0) params)),
                      ConsoleDebug result, Restore (rpcNonce ?st0), Resolve (rpcNonce ?st0) signed,
                      Fetch (headers_set ''PAYMENT-SIGNATURE'' encoded init_headers)]\<rparr>,
           Ok r2)"
    using sign answer(6) payload(2) encoded second unfolding payload(1) seconds(1) extra
    by (simp add: x402_sign_def Let_def x402_retry_def doFetch_def emit_def)
  then show ?thesis
    using pay sch sel posted by (simp add: emit_def)
qed

lemma ex_entry_cased_fields:
  "field ex_entry_cased ''scheme'' = JStr ''Exact''"
  "field ex_entry_cased ''network'' = JStr ''eip155:8453''"
  "field ex_entry_cased ''amount'' = JStr ''1000''"
  "field ex_entry_cased ''asset'' = JStr ''0x833589fCD6eDb6E08f4c7C32D4f71b54BdA02913''"
  "field ex_entry_cased ''payTo'' = JStr ''0xAbc''"
  "field ex_entry_cased ''extra'' = JUndefined"
  "field ex_entry_cased ''maxTimeoutSeconds'' = JUndefined"
  by (simp_all add: ex_entry_cased_def field_def get_prop_def)

theorem x402Fetch_pays_once_witness:
  "x402_challenge (ex_env ex_challenge_later)
     \<lparr>status = 402, headers = [(''payment-required'', ex_challenge_later)]\<rparr>
     = Selected (JObj [(''accepted'', JArr [ex_entry_upto, ex_entry_cased])]) ex_entry_cased
   \<and> snd (x402Fetch (ex_env ex_challenge_later) ex_input [] ex_bridge) = Ok \<lparr>status = 200, headers = []\<rparr>
   \<and> trace (fst (x402Fetch (ex_env ex_challenge_later) ex_input [] ex_bridge)) =
       [Fetch [], Prepare,
        ChildCall ''getERC3009Signature'' (serialize (envelope ''getERC3009Signature'' 0 ex_params)),
        ConsoleDebug (ex_reply True 0 ex_signed), Restore 0, Resolve 0 ex_signed,
        Fetch [(''payment-signature'', ''b64:'' @ ex_payload_text)]]
   \<and> map_sum id (\<lambda>p. field (field p ''accepted'') ''scheme'') (JSON_parse ex_payload_text)
       = Inr (JStr ''exact'')"
proof -
  let ?e = "ex_env ex_challenge_later" and ?x = ex_entry_cased
  let ?req = "JObj [(''accepted'', JArr [ex_entry_upto, ex_entry_cased])]"
  have text_parsed: "map_sum id (\<lambda>p. field (field p ''accepted'') ''scheme'') (JSON_parse ex_payload_text)
       = Inr (JStr ''exact'')"
    by code_simp
  have hd: "headers_get (headers \<lparr>status = 402, headers = [(''payment-required'', ex_challenge_later)]\<rparr>)
              ''payment-required'' = Some ex_challenge_later"
    by (simp add: headers_get_def toLowerCase_def lower_char_def)
  have ne: "ex_challenge_later \<noteq> []" by (simp add: ex_challenge_later_def)
  have pr: "x402ParseJsonOrBase64Json (x402Base64DecodeUtf8 ?e) ex_challenge_later = Inr ?req"
    by code_simp
  have ac: "x402NormalizeAcceptedPayments ?req = Inr ([ex_entry_upto] @ ex_entry_cased # [])"
    by code_simp
  have ot: "\<forall>p\<in>set [ex_entry_upto].
              \<exists>s. js_toLowerCase (js_coalesce (field p ''scheme'') (JStr [])) = Inr s \<and> s \<noteq> ''exact''"
    by (simp add: ex_entry_upto_def field_def get_prop_def js_coalesce_def nullish_def
          js_toLowerCase_def toLowerCase_def lower_char_def)
  have sc: "js_toLowerCase (js_coalesce (field ?x ''scheme'') (JStr [])) = Inr ''exact''"
    by (simp add: ex_entry_cased_fields js_coalesce_def nullish_def js_toLowerCase_def
          toLowerCase_def lower_char_def)
  have l: "toLowerCase ''0x833589fCD6eDb6E08f4c7C32D4f71b54BdA02913''
             = ''0x833589fcd6edb6e08f4c7c32d4f71b54bda02913''"
    by (simp add: toLowerCase_def lower_char_def)
  have m: "\<not> truthy (js_coalesce (field (js_coalesce (field ?x ''extra'') (JObj [])) ''assetTransferMethod'')
             (field (js_coalesce (field ?x ''extra'') (JObj [])) ''asset_transfer_method''))
           \<or> js_toLowerCase (js_coalesce (field (js_coalesce (field ?x ''extra'') (JObj [])) ''assetTransferMethod'')
             (field (js_coalesce (field ?x ''extra'') (JObj [])) ''asset_transfer_method'')) = Inr ''eip3009''"
    by (simp add: ex_entry_cased_fields get_prop_def js_coalesce_def nullish_def field_JObj)
  have c: "child ex_bridge = Some \<lparr>call_throws = None\<rparr>" and z: "rpcNonce ex_bridge = 0"
    and t: "trace ex_bridge = []"
    by (simp_all add: ex_bridge_def initialize_def new_bridge_def)
  have s: "(case field ?x ''maxTimeoutSeconds'' of JNum t \<Rightarrow> t | _ \<Rightarrow> 60) = 60"
    by (simp add: ex_entry_cased_fields)
  have win: "int (now ?e div 1000) + 60 \<le> 9007199254740992"
    by (simp add: ex_env_def)
  have p: "JObj [(''recipient'', JStr (x402ResolveRequestUrl ex_input)),
                        (''destinationAddress'', field ?x ''payTo''),
                        (''amount'', field ?x ''amount''),
                        (''validUntil'', JNum (int (now ?e div 1000) + 60)),
                        (''validAfter'', JNum (int (now ?e div 1000)))] = ex_params"
    by (simp add: ex_params_def ex_input_def ex_entry_cased_fields ex_env_def)
  have w: "wallet ?e ''getERC3009Signature''
             (serialize (envelope ''getERC3009Signature'' (rpcNonce ex_bridge) ex_params))
           = Some (ex_message True 0 ex_signed)"
    by (simp add: ex_env_def ex_message_def serialize_def ex_reply_def)
  have d: "deserialize (ex_message True 0 ex_signed) = Ok (ex_reply True 0 ex_signed)"
    by code_simp
  have k: "js_get (ex_reply True 0 ex_signed) ''callbackNonce'' = Inr (JNum (int (rpcNonce ex_bridge)))"
    by (simp add: ex_reply_def get_prop_def z)
  have ok: "truthy (field (ex_reply True 0 ex_signed) ''success'')"
    by (simp add: ex_reply_def field_def get_prop_def)
  have r: "decode_result (field (ex_reply True 0 ex_signed) ''result'') = Inr ex_signed"
    by code_simp
  have ns: "\<not> nullish ex_signed" by (simp add: nullish_def ex_signed_def)
  have pl: "paymentPayload ?req (x402ResolveRequestUrl ex_input)
              (field ?x ''network'') (field ?x ''amount'') (field ?x ''asset'') (field ?x ''payTo'')
              60 (js_coalesce (field ?x ''extra'') (JObj [])) ex_signed = ex_payload"
    by (simp add: ex_payload_def ex_input_def ex_entry_cased_fields ex_entry_fields
          paymentPayload_def Let_def field_JObj get_prop_def js_coalesce_def nullish_def)
  have js: "JSON_stringify ex_payload = Inr (Some ex_payload_text)"
    by code_simp
  have enc: "x402Base64EncodeUtf8 ?e ex_payload_text = Inr (''b64:'' @ ex_payload_text)"
    by (simp add: ex_env_def)
  have f2: "fetch ?e (headers_set ''PAYMENT-SIGNATURE'' (''b64:'' @ ex_payload_text) [])
              = Inr \<lparr>status = 200, headers = []\<rparr>"
    by (simp add: ex_env_def headers_set_def toLowerCase_def lower_char_def)
  have st: "status \<lparr>status = 402, headers = [(''payment-required'', ex_challenge_later)]\<rparr> = 402"
    by simp
  show ?thesis
    using x402Fetch_pays_once [OF ex_fetch_first st hd ne pr ac ot sc ex_entry_cased_fields(2)
        ex_entry_cased_fields(4) l _ _ refl refl m c _ s [symmetric] _ p [symmetric] refl w d k ok r ns
        pl [symmetric] js enc f2] text_parsed win
    by (simp add: ex_entry_cased_fields z t headers_set_def toLowerCase_def lower_char_def)
qed

text \<open>
  C2, as the claim states it, fails at a challenge with two entries of scheme
  \<open>exact\<close>, the first on \<open>eip155:1\<close> and the second on \<open>eip155:8453\<close>, both with
  the USDC contract of Base, an amount and a payee.  The challenge contains the
  entry the claim describes, but \<open>x402Fetch\<close> selects the first entry of scheme
  \<open>exact\<close>: it fails with the error for an unsupported payment, and nothing is
  signed or sent again.
\<close>

theorem x402Fetch_first_exact_counterexample:
  "x402_challenge (ex_env ex_challenge_two)
     \<lparr>status = 402, headers = [(''payment-required'', ex_challenge_two)]\<rparr>
     = Selected (JObj [(''accepted'', JArr [ex_entry ''eip155:1'' [], ex_entry ''eip155:8453'' []])])
         (ex_entry ''eip155:1'' [])
   \<and> x402Fetch (ex_env ex_challenge_two) ex_input [] ex_bridge =
       (emit (Fetch []) ex_bridge,
        ajax ''Unsupported x402 payment. Only USDC on Base is supported (got asset=0x833589fCD6eDb6E08f4c7C32D4f71b54BdA02913, network=eip155:1).'')"
proof -
  have s: "x402_challenge (ex_env ex_challenge_two)
     \<lparr>status = 402, headers = [(''payment-required'', ex_challenge_two)]\<rparr>
     = Selected (JObj [(''accepted'', JArr [ex_entry ''eip155:1'' [], ex_entry ''eip155:8453'' []])])
         (ex_entry ''eip155:1'' [])"
    by code_simp
  have "x402_pay (ex_env ex_challenge_two) ex_input []
          (JObj [(''accepted'', JArr [ex_entry ''eip155:1'' [], ex_entry ''eip155:8453'' []])])
          (ex_entry ''eip155:1'' []) (emit (Fetch []) ex_bridge)
        = (emit (Fetch []) ex_bridge,
           ajax (''Unsupported x402 payment. Only USDC on Base is supported (got asset=''
                 @ ''0x833589fCD6eDb6E08f4c7C32D4f71b54BdA02913'' @ '', network=eip155:1).''))"
    by (rule x402_pay_mainnet [OF ex_entry_fields(1) ex_entry_fields(3) lower_usdc])
       (simp_all add: ex_entry_fields)
  then show ?thesis
    using s x402Fetch_selected [OF ex_fetch_first _ s, of ex_input ex_bridge] by simp
qed

section \<open>Determinism of serialize\<close>

lemma map_insort_key_fst:
  assumes "\<And>x. fst (F x) = fst x"
  shows "map F (insort_key fst x ys) = insort_key fst (F x) (map F ys)"
  by (induction ys) (simp_all add: assms)

lemma map_sort_key_fst:
  assumes "\<And>x. fst (F x) = fst x"
  shows "map F (sort_key fst xs) = sort_key fst (map F xs)"
  by (induction xs) (simp_all add: map_insort_key_fst [OF assms])

lemma sort_key_twice: "sort_key f (sort_key f xs) = sort_key f xs"
  by (simp add: sort_key_id_if_sorted)

lemma emit_object_sorted:
  assumes "\<And>x. fst (F x) = fst x"
  shows "emit_object (map F (sort_key fst xs)) = emit_object (map F xs)"
  by (simp add: emit_object_def map_sort_key_fst [OF assms] sort_key_twice)

lemma truthy_sort_properties: "truthy (sort_properties v) = truthy v"
  by (cases v) simp_all

lemma stringify_sort_properties: "stringify (sort_properties v) = stringify v"
proof (induction v)
  case (JArr xs)
  then show ?case by (simp add: comp_def cong: map_cong)
next
  case (JObj ps)
  have a: "map (\<lambda>(k, v). (k, stringify v)) (map (\<lambda>(k, v). (k, sort_properties v)) ps)
          = map (\<lambda>(k, v). (k, stringify v)) ps"
    using JObj by (auto simp: case_prod_unfold intro!: map_idI)
  have b: "emit_object (map (\<lambda>(k, v). (k, stringify v))
                    (sort_key fst (map (\<lambda>(k, v). (k, sort_properties v)) ps)))
          = emit_object (map (\<lambda>(k, v). (k, stringify v)) (map (\<lambda>(k, v). (k, sort_properties v)) ps))"
    by (rule emit_object_sorted) (simp add: case_prod_unfold)
  show ?case by (simp only: sort_properties.simps stringify.simps b a)
next
  case (JError n m s)
  then show ?case by (simp add: truthy_sort_properties)
next
  case (JMap es)
  have "map (\<lambda>(k, v). Some (emit_array [stringify k, stringify v]))
          (map (\<lambda>(k, v). (sort_properties k, sort_properties v)) es)
        = map (\<lambda>(k, v). Some (emit_array [stringify k, stringify v])) es"
    using JMap by (auto simp: case_prod_unfold)
  then show ?case by (simp only: sort_properties.simps stringify.simps)
next
  case (JSet xs)
  then show ?case by (simp add: comp_def cong: map_cong)
qed simp_all

text \<open>
  C8.  Two values that are equal up to the order in which the properties of their
  objects were inserted (at any depth) are serialized to the same text.  That the
  same value is serialized to the same text twice is what it is for \<open>serialize\<close> to
  be a function of the value.
\<close>

theorem serialize_property_order:
  "same_up_to_property_order v w \<Longrightarrow> serialize v = serialize w"
  unfolding same_up_to_property_order_def serialize_def
  by (metis stringify_sort_properties)

theorem serialize_property_order_witness:
  "same_up_to_property_order
     (JObj [(''b'', JNum 1), (''a'', JObj [(''d'', JBool True), (''c'', JArr [JNull, JStr ''x''])])])
     (JObj [(''a'', JObj [(''c'', JArr [JNull, JStr ''x'']), (''d'', JBool True)]), (''b'', JNum 1)])
   \<and> serialize (JObj [(''b'', JNum 1), (''a'', JObj [(''d'', JBool True), (''c'', JArr [JNull, JStr ''x''])])])
     = serialize (JObj [(''a'', JObj [(''c'', JArr [JNull, JStr ''x'']), (''d'', JBool True)]), (''b'', JNum 1)])"
proof -
  have s: "same_up_to_property_order
     (JObj [(''b'', JNum 1), (''a'', JObj [(''d'', JBool True), (''c'', JArr [JNull, JStr ''x''])])])
     (JObj [(''a'', JObj [(''c'', JArr [JNull, JStr ''x'']), (''d'', JBool True)]), (''b'', JNum 1)])"
    by (simp add: same_up_to_property_order_def)
  show ?thesis using serialize_property_order [OF s] s by simp
qed

text \<open>
  The entries of a \<open>Map\<close> are not properties: they are written in the order of
  insertion, so two maps with the same entries inserted in different orders are
  serialized to different texts.
\<close>

lemma serialize_Map_insertion_order:
  "serialize (JMap [(JStr ''a'', JNum 1), (JStr ''b'', JNum 2)])
     \<noteq> serialize (JMap [(JStr ''b'', JNum 2), (JStr ''a'', JNum 1)])"
  by code_simp

section \<open>Reading back what was written: numbers and strings\<close>

lemma lt_10_cases: "n < 10 \<Longrightarrow> n \<in> {0, 1, 2, 3, 4, 5, 6, 7, 8, 9::nat}"
  by auto


lemma digit_char_is_digit: "n < 10 \<Longrightarrow> is_digit (digit_char n)"
  by (drule lt_10_cases) (auto simp: digit_char_def is_digit_def)

lemma digit_val_digit_char: "n < 10 \<Longrightarrow> digit_val (digit_char n) = n"
  by (drule lt_10_cases) (auto simp: digit_char_def digit_val_def)



lemma show_nat_nonempty: "show_nat n \<noteq> []"
  by (subst show_nat.simps) simp

lemma show_nat_digits: "c \<in> set (show_nat n) \<Longrightarrow> is_digit c"
proof (induction n rule: show_nat.induct)
  case (1 n)
  show ?case
  proof (cases "n < 10")
    case True
    then show ?thesis using 1(2) by (simp add: show_nat.simps [of n] digit_char_is_digit)
  next
    case False
    then show ?thesis
      using 1 by (auto simp: show_nat.simps [of n] digit_char_is_digit)
  qed
qed

lemma nat_of_digits_snoc: "nat_of_digits (ds @ [c]) = 10 * nat_of_digits ds + digit_val c"
  by (simp add: nat_of_digits_def)

lemma nat_of_digits_show_nat: "nat_of_digits (show_nat n) = n"
proof (induction n rule: show_nat.induct)
  case (1 n)
  show ?case
  proof (cases "n < 10")
    case True
    then show ?thesis
      by (simp add: show_nat.simps [of n] nat_of_digits_def digit_val_digit_char)
  next
    case False
    then show ?thesis
      using 1 by (simp add: show_nat.simps [of n] nat_of_digits_snoc digit_val_digit_char)
  qed
qed





lemma show_nat_hd_digit: "is_digit (hd (show_nat n))"
  using show_nat_digits [of "hd (show_nat n)" n] show_nat_nonempty [of n] by simp



lemma show_int_hd: "show_int i \<noteq> [] \<and> (hd (show_int i) = CHR ''-'' \<or> is_digit (hd (show_int i)))"
  using show_nat_hd_digit show_nat_nonempty by (simp add: show_int_def)




section \<open>Reading back what was written: values\<close>



lemma strEscape_Cons: "strEscape s = CHR 0x22 # tl (strEscape s)"
  by (simp add: strEscape_def)












section \<open>The round trip through serialize and deserialize\<close>








lemma is_primitive_wire: "is_json t \<Longrightarrow> is_primitive (wire t) = is_primitive t"
  by (cases t) simp_all

lemma wire_primitive: "is_json t \<Longrightarrow> is_primitive t \<Longrightarrow> wire t = t"
  by (cases t) simp_all









lemma hex_val_digit: "is_digit c \<Longrightarrow> hex_val c = Some (digit_val c) \<and> digit_val c < 10"
  by (auto simp: is_digit_def hex_val_def digit_val_def Let_def)

lemma foldl_digits:
  "list_all is_digit ds \<Longrightarrow>
     foldl (\<lambda>a c. 10 * a + the (hex_val c)) a ds = foldl (\<lambda>a c. 10 * a + digit_val c) a ds"
  by (induction ds arbitrary: a) (simp_all add: hex_val_digit)

lemma digits_value_show_nat: "digits_value 10 (show_nat n) = Some n"
proof -
  have d: "list_all is_digit (show_nat n)"
    by (simp add: list_all_iff show_nat_digits)
  then have "list_all (\<lambda>c. case hex_val c of None \<Rightarrow> False | Some d \<Rightarrow> d < 10) (show_nat n)"
    by (simp add: list_all_iff hex_val_digit)
  moreover have "foldl (\<lambda>a c. 10 * a + the (hex_val c)) 0 (show_nat n) = n"
    using foldl_digits [OF d, of 0] nat_of_digits_show_nat [of n] by (simp add: nat_of_digits_def)
  ultimately show ?thesis
    by (simp add: digits_value_def show_nat_nonempty)
qed

lemma trim_id:
  assumes "s \<noteq> []" "\<not> is_js_space (hd s)" "\<not> is_js_space (last s)"
  shows "trim s = s"
proof -
  have "dropWhile is_js_space s = s"
    using assms(1,2) by (cases s) simp_all
  moreover have "dropWhile is_js_space (rev s) = rev s"
    using assms(1,3) by (cases "rev s") (simp_all add: last_rev [symmetric] hd_rev)
  ultimately show ?thesis by (simp add: trim_def)
qed

lemma show_int_chars: "c \<in> set (show_int i) \<Longrightarrow> c = CHR ''-'' \<or> is_digit c"
  by (auto simp: show_int_def show_nat_digits split: if_splits)

lemma StringToBigInt_show_int: "StringToBigInt (show_int i) = Some i"
proof -
  let ?s = "show_int i"
  have ne: "?s \<noteq> []" using show_int_hd [of i] by simp
  have sp: "\<not> is_js_space c" if "c \<in> set ?s" for c
    using show_int_chars [OF that] by (auto simp: is_js_space_def is_digit_def Let_def)
  have t: "trim ?s = ?s"
    using ne sp by (intro trim_id) simp_all
  have two: "set (take 2 ?s) \<subseteq> set ?s" by (rule set_take_subset)
  have no: "take 2 ?s \<noteq> [CHR ''0'', c]" if "c \<noteq> CHR ''-''" "\<not> is_digit c" for c
  proof
    assume "take 2 ?s = [CHR ''0'', c]"
    then have "c \<in> set ?s" using two by auto
    then show False using show_int_chars that by blast
  qed
  have prefix: "take 2 ?s \<noteq> ''0x''" "take 2 ?s \<noteq> ''0X''" "take 2 ?s \<noteq> ''0o''"
    "take 2 ?s \<noteq> ''0O''" "take 2 ?s \<noteq> ''0b''" "take 2 ?s \<noteq> ''0B''"
    by (rule no; simp add: is_digit_def)+
  show ?thesis
  proof (cases "i < 0")
    case True
    then have "?s = CHR ''-'' # show_nat (nat (- i))" by (simp add: show_int_def)
    then show ?thesis
      using True prefix t digits_value_show_nat [of "nat (- i)"]
      by (simp add: StringToBigInt_def Let_def)
  next
    case False
    then have s: "?s = show_nat (nat i)" by (simp add: show_int_def)
    have "is_digit (hd ?s)" using show_nat_hd_digit [of "nat i"] s by simp
    then have "hd ?s \<noteq> CHR ''-''" "hd ?s \<noteq> CHR ''+''"
      by (auto simp: is_digit_def)
    then show ?thesis
      using False prefix t ne digits_value_show_nat [of "nat i"] s
      by (simp add: StringToBigInt_def Let_def)
  qed
qed

lemma BigInt_show_int: "BigInt (JStr (show_int i)) = Inr (JBigInt i)"
  by (simp add: StringToBigInt_show_int)

text \<open>Both decoders read a wrapper with either tag as the bigint of its digits.\<close>

lemma decoders_read_both_tags:
  assumes "t = ''BigInt'' \<or> t = ''bigint''"
  shows "processValue (JObj [(''dataType'', JStr t), (''value'', JStr (show_int n))]) = Inr (JBigInt n)"
    and "reviver (JObj [(''dataType'', JStr t), (''value'', JStr (show_int n))]) = Inr (JBigInt n)"
  using assms by (auto simp: get_prop_def StringToBigInt_show_int)




lemma filter_primitive_wire:
  "list_all is_json ks \<Longrightarrow> filter is_primitive (map wire ks) = filter is_primitive ks"
  by (induction ks) (simp_all add: is_primitive_wire wire_primitive)

























lemma sort_properties_twice: "sort_properties (sort_properties v) = sort_properties v"
proof (induction v)
  case (JArr xs)
  then show ?case by (simp add: comp_def cong: map_cong)
next
  case (JObj ps)
  let ?S = "\<lambda>(k, v). (k, sort_properties v)"
  have a: "map ?S (map ?S ps) = map ?S ps"
    using JObj by (auto simp: case_prod_unfold)
  have "map ?S (sort_key fst (map ?S ps)) = sort_key fst (map ?S (map ?S ps))"
    by (rule map_sort_key_fst) (simp add: case_prod_unfold)
  then show ?case
    by (simp only: sort_properties.simps a sort_key_twice)
next
  case (JMap es)
  have "map (\<lambda>(k, v). (sort_properties k, sort_properties v))
          (map (\<lambda>(k, v). (sort_properties k, sort_properties v)) es)
        = map (\<lambda>(k, v). (sort_properties k, sort_properties v)) es"
    using JMap by (auto simp: case_prod_unfold)
  then show ?case by (simp only: sort_properties.simps)
next
  case (JSet xs)
  then show ?case by (simp add: comp_def cong: map_cong)
qed simp_all





text \<open>
  The \<open>Map\<close> with a bigint in an entry.  \<open>serialize\<close> wraps the bigint inside the
  wrapper of the map; \<open>deserialize\<close> rebuilds the map from the entries as the
  parser left them and does not visit them, so the entry comes back as the plain
  object of the wrapper and not as a bigint.  \<open>deserializeUnsafe\<close>, on the same
  text, returns the map with the bigint.
\<close>

lemma roundtrip_nested_bigint_lost:
  "toGenericObject (JMap [(JStr ''a'', JBigInt 1)])
     = Ok (JMap [(JStr ''a'', JObj [(''dataType'', JStr ''bigint''), (''value'', JStr ''1'')])])
   \<and> toGenericObject (JMap [(JStr ''a'', JBigInt 1)]) \<noteq> Ok (JMap [(JStr ''a'', JBigInt 1)])
   \<and> (case serialize (JMap [(JStr ''a'', JBigInt 1)]) of
        None \<Rightarrow> False
      | Some json \<Rightarrow> deserializeUnsafe json = Inr (JMap [(JStr ''a'', JBigInt 1)]))"
  by code_simp

lemma roundtrip_nested_in_Set_lost:
  "toGenericObject (JSet [JMap [], JError (JStr ''E'') (JStr ''m'') (JStr ''s'')])
     = Ok (JSet [JObj [(''dataType'', JStr ''Map''), (''value'', JArr [])],
                 JObj [(''dataType'', JStr ''Error''),
                       (''value'', JObj [(''message'', JStr ''m''), (''name'', JStr ''E''),
                                        (''stack'', JStr ''s'')])]])"
  by code_simp

lemma roundtrip_nested_in_array_kept:
  "toGenericObject (JArr [JBigInt 1, JObj [(''m'', JMap [(JStr ''a'', JNum 2)])]])
     = Ok (JArr [JBigInt 1, JObj [(''m'', JMap [(JStr ''a'', JNum 2)])]])"
  by code_simp

text \<open>
  A key \<open>__proto__\<close> of a plain object does not come back: with a primitive value it
  is dropped, with an object as its value the result leaves the embedding.
\<close>

lemma roundtrip_proto_dropped:
  "toGenericObject (JObj [(''__proto__'', JNum 1), (''a'', JNum 2)]) = Ok (JObj [(''a'', JNum 2)])
   \<and> toGenericObject (JObj [(''__proto__'', JObj [(''a'', JNum 2)])]) = Rejected OutOfModel"
  by code_simp

end
